theory Spec2Isabelle
  imports Main
begin

section \<open>Go strings: the library functions certmaker.go calls\<close>

text \<open>
  A Go string is a sequence of bytes, here a \<open>char list\<close> (a \<open>char\<close> is one byte).
  The functions below follow the definitions of package \<open>strings\<close>: \<open>HasPrefix\<close>
  compares the first \<open>len(prefix)\<close> bytes, \<open>Index\<close> is the position of the first
  occurrence or \<open>-1\<close>, \<open>Contains\<close> is \<open>Index >= 0\<close>, \<open>TrimPrefix\<close> drops the prefix
  when there is one, \<open>Split\<close> cuts at every non-overlapping occurrence of the separator
  from the left, \<open>TrimSpace\<close> removes leading and then trailing white space, where
  white space is what \<open>unicode.IsSpace\<close> accepts, read through UTF-8.
\<close>

definition HasPrefix :: "string \<Rightarrow> string \<Rightarrow> bool" where
  "HasPrefix s p = (length p \<le> length s \<and> take (length p) s = p)"

fun Index :: "string \<Rightarrow> string \<Rightarrow> int" where
  "Index [] sub = (if sub = [] then 0 else - 1)"
| "Index (c # cs) sub =
     (if HasPrefix (c # cs) sub then 0
      else (let i = Index cs sub in if i < 0 then - 1 else i + 1))"

definition Contains :: "string \<Rightarrow> string \<Rightarrow> bool" where
  "Contains s sub = (0 \<le> Index s sub)"

definition TrimPrefix :: "string \<Rightarrow> string \<Rightarrow> string" where
  "TrimPrefix s p = (if HasPrefix s p then drop (length p) s else s)"

text \<open>
  A slice expression \<open>s[lo:hi]\<close> panics unless \<open>0 <= lo <= hi <= len(s)\<close>;
  \<open>None\<close> is the panic. \<open>s[lo:]\<close> is \<open>s[lo:len(s)]\<close>.
\<close>

definition slice :: "string \<Rightarrow> int \<Rightarrow> int \<Rightarrow> string option" where
  "slice s lo hi =
     (if 0 \<le> lo \<and> lo \<le> hi \<and> hi \<le> int (length s)
      then Some (take (nat hi - nat lo) (drop (nat lo) s)) else None)"

definition sliceFrom :: "string \<Rightarrow> int \<Rightarrow> string option" where
  "sliceFrom s lo = slice s lo (int (length s))"

text \<open>
  \<open>Split(s, sep)\<close> for a non-empty separator: the text before the first occurrence,
  then the split of what follows it; a string without the separator is one segment.
  (With an empty separator Go splits after each UTF-8 sequence; certmaker.go never does
  that, and the model returns the bytes one by one.)
\<close>

function Split :: "string \<Rightarrow> string \<Rightarrow> string list" where
  "Split s sep =
     (if sep = [] then map (\<lambda>c. [c]) s
      else (let m = Index s sep in
            if m < 0 then [s]
            else take (nat m) s # Split (drop (nat m + length sep) s) sep))"
  by pat_completeness auto
termination
proof (relation "measure (\<lambda>(s, sep). length s)")
  show "wf (measure (\<lambda>(s, sep). length s))" by simp
next
  fix s sep :: string and m :: int
  assume sep: "sep \<noteq> []" and m: "m = Index s sep" and nn: "\<not> m < 0"
  have "s \<noteq> []"
  proof
    assume "s = []"
    with sep m have "m = - 1" by simp
    with nn show False by simp
  qed
  moreover from sep have "0 < length sep" by simp
  ultimately have "length (drop (nat m + length sep) s) < length s" by simp
  then show "((drop (nat m + length sep) s, sep), (s, sep)) \<in> measure (\<lambda>(s, sep). length s)"
    by simp
qed

declare Split.simps [simp del]

text \<open>
  White space. Below \<open>0x80\<close> it is tab, line feed, vertical tab, form feed, carriage
  return and space. Above, \<open>unicode.IsSpace\<close> accepts U+0085, U+00A0, U+1680,
  U+2000 to U+200A, U+2028, U+2029, U+202F, U+205F and U+3000, which a Go string holds
  in UTF-8: two bytes for the first two, three for the others. A byte sequence that
  is not valid UTF-8 decodes to U+FFFD, which is not white space.
\<close>

definition asciiSpace :: "char \<Rightarrow> bool" where
  "asciiSpace c = (c = CHR 0x09 \<or> c = CHR 0x0A \<or> c = CHR 0x0B \<or> c = CHR 0x0C
                   \<or> c = CHR 0x0D \<or> c = CHR 0x20)"

definition space2 :: "char \<Rightarrow> char \<Rightarrow> bool" where
  "space2 a b = (a = CHR 0xC2 \<and> (b = CHR 0x85 \<or> b = CHR 0xA0))"

definition space3 :: "char \<Rightarrow> char \<Rightarrow> char \<Rightarrow> bool" where
  "space3 a b c =
     ((a = CHR 0xE1 \<and> b = CHR 0x9A \<and> c = CHR 0x80)
      \<or> (a = CHR 0xE2 \<and> b = CHR 0x80
          \<and> (((0x80 :: nat) \<le> of_char c \<and> (of_char c :: nat) \<le> 0x8A)
              \<or> c = CHR 0xA8 \<or> c = CHR 0xA9 \<or> c = CHR 0xAF))
      \<or> (a = CHR 0xE2 \<and> b = CHR 0x81 \<and> c = CHR 0x9F)
      \<or> (a = CHR 0xE3 \<and> b = CHR 0x80 \<and> c = CHR 0x80))"

fun TrimLeftSpace :: "string \<Rightarrow> string" where
  "TrimLeftSpace (a # b # c # s) =
     (if asciiSpace a then TrimLeftSpace (b # c # s)
      else if space2 a b then TrimLeftSpace (c # s)
      else if space3 a b c then TrimLeftSpace s
      else a # b # c # s)"
| "TrimLeftSpace [a, b] =
     (if asciiSpace a then TrimLeftSpace [b]
      else if space2 a b then []
      else [a, b])"
| "TrimLeftSpace [a] = (if asciiSpace a then [] else [a])"
| "TrimLeftSpace [] = []"

text \<open>
  Trailing white space is found by decoding the last rune; on the reversed string that
  is the same match with the bytes of each encoding in reverse order.
\<close>

fun TrimLeftSpaceRev :: "string \<Rightarrow> string" where
  "TrimLeftSpaceRev (c # b # a # s) =
     (if asciiSpace c then TrimLeftSpaceRev (b # a # s)
      else if space2 b c then TrimLeftSpaceRev (a # s)
      else if space3 a b c then TrimLeftSpaceRev s
      else c # b # a # s)"
| "TrimLeftSpaceRev [c, b] =
     (if asciiSpace c then TrimLeftSpaceRev [b]
      else if space2 b c then []
      else [c, b])"
| "TrimLeftSpaceRev [c] = (if asciiSpace c then [] else [c])"
| "TrimLeftSpaceRev [] = []"

definition TrimRightSpace :: "string \<Rightarrow> string" where
  "TrimRightSpace s = rev (TrimLeftSpaceRev (rev s))"

definition TrimSpace :: "string \<Rightarrow> string" where
  "TrimSpace s = TrimRightSpace (TrimLeftSpace s)"

section \<open>The configuration and its validation\<close>

text \<open>
  \<open>KMSConfig\<close> as the struct declares it. \<open>Options\<close> is a Go map, which may be
  \<open>nil\<close>: \<open>None\<close> is the nil map. Reading a key that a map does not hold, or
  any key of the nil map, gives the empty string.
\<close>

record KMSConfig =
  CommonName :: string
  Type :: string
  RootKeyID :: string
  IntermediateKeyID :: string
  LeafKeyID :: string
  Options :: "(string \<rightharpoonup> string) option"

definition option_value :: "(string \<rightharpoonup> string) option \<Rightarrow> string \<Rightarrow> string" where
  "option_value opts k =
     (case opts of None \<Rightarrow> [] | Some m \<Rightarrow> (case m k of None \<Rightarrow> [] | Some v \<Rightarrow> v))"

text \<open>
  The errors of the package, one constructor for each message that \<open>fmt.Errorf\<close>
  builds; the arguments are the values the message interpolates. \<open>Wrapped ctx e\<close> is
  \<open>fmt.Errorf("ctx: %w", e)\<close>. \<open>External\<close> is an error that a collaborator
  (the KMS client, the template package, x509util, the file system) returned.
  \<open>Panic\<close> is a run-time panic (a slice out of range), which is not an error value
  in Go; the model needs it as an outcome, and it is shown below never to happen.
\<close>

datatype error =
    KMSTypeEmpty                      \<comment> \<open>KMS type cannot be empty\<close>
  | AwsRegionRequired                 \<comment> \<open>aws-region is required for AWS KMS\<close>
  | InvalidArnFormat string           \<comment> \<open>invalid AWS KMS ARN format for \%s\<close>
  | RegionMismatch string string      \<comment> \<open>region in ARN (\%s) does not match configured region (\%s)\<close>
  | AliasNameEmpty string             \<comment> \<open>alias name cannot be empty for \%s\<close>
  | AwsKeyPrefix string               \<comment> \<open>awskms \%s must start with 'arn:aws:kms:' or 'alias/'\<close>
  | GcpCredentialsRequired            \<comment> \<open>gcp-credentials-file is required for GCP KMS\<close>
  | GcpKeyComponent string string     \<comment> \<open>gcpkms \%s \%s\<close>
  | AzureOptionsRequired              \<comment> \<open>options map is required for Azure KMS\<close>
  | AzureTenantRequired               \<comment> \<open>azure-tenant-id is required for Azure KMS\<close>
  | AzureKeyPrefix string             \<comment> \<open>azurekms \%s must start with 'azurekms:name='\<close>
  | AzureVaultParam string            \<comment> \<open>azurekms \%s must contain ';vault=' parameter\<close>
  | KeyNameEmpty string               \<comment> \<open>key name cannot be empty for \%s\<close>
  | VaultNameEmpty string             \<comment> \<open>vault name cannot be empty for \%s\<close>
  | HashiOptionsRequired              \<comment> \<open>options map is required for HashiVault KMS\<close>
  | VaultTokenRequired                \<comment> \<open>vault-token is required for HashiVault KMS\<close>
  | VaultAddressRequired              \<comment> \<open>vault-address is required for HashiVault KMS\<close>
  | HashiKeyFormat string             \<comment> \<open>hashivault \%s must be in format: transit/keys/keyname\<close>
  | HashiKeyPrefix string             \<comment> \<open>hashivault \%s must start with 'transit/keys/'\<close>
  | UnsupportedType string            \<comment> \<open>unsupported KMS type: \%s\<close>
  | RootKeyIDRequired                 \<comment> \<open>RootKeyID must be specified\<close>
  | LeafKeyIDRequired                 \<comment> \<open>LeafKeyID must be specified\<close>
  | NilSigner                         \<comment> \<open>KMS returned nil signer\<close>
  | NotCryptoSigner string            \<comment> \<open>\%s does not implement CryptoSigner\<close>
  | CertificateNil                    \<comment> \<open>certificate is nil\<close>
  | CertificateNoRaw                  \<comment> \<open>certificate has no raw data\<close>
  | TemplateNotFound string string error  \<comment> \<open>\%s template error: template not found at \%s: \%w\<close>
  | Wrapped string error
  | External string
  | Panic

text \<open>The closure \<open>validateAWSKeyID\<close>; it reads \<open>config.Options["aws-region"]\<close>.\<close>

definition validateAWSKeyID :: "KMSConfig \<Rightarrow> string \<Rightarrow> string \<Rightarrow> error option" where
  "validateAWSKeyID config keyID keyType =
     (if keyID = [] then None
      else if HasPrefix keyID ''arn:aws:kms:'' then
        (let parts = Split keyID '':'' in
         if length parts < 6 then Some (InvalidArnFormat keyType)
         else if parts ! 3 \<noteq> option_value (Options config) ''aws-region''
           then Some (RegionMismatch (parts ! 3) (option_value (Options config) ''aws-region''))
         else None)
      else if HasPrefix keyID ''alias/'' then
        (if TrimPrefix keyID ''alias/'' = [] then Some (AliasNameEmpty keyType) else None)
      else Some (AwsKeyPrefix keyType))"

text \<open>
  The closure \<open>validateGCPKeyID\<close>: the table of required components, and the loop
  that returns at the first one the identifier does not contain.
\<close>

definition quoted :: "string \<Rightarrow> string" where
  "quoted s = CHR 0x27 # s @ [CHR 0x27]"

definition requiredComponents :: "(string \<times> string) list" where
  "requiredComponents =
     [(''projects/'', ''must start with '' @ quoted ''projects/''),
      (''/locations/'', ''must contain '' @ quoted ''/locations/''),
      (''/keyRings/'', ''must contain '' @ quoted ''/keyRings/''),
      (''/cryptoKeys/'', ''must contain '' @ quoted ''/cryptoKeys/''),
      (''/cryptoKeyVersions/'', ''must contain '' @ quoted ''/cryptoKeyVersions/'')]"

fun checkComponents :: "string \<Rightarrow> string \<Rightarrow> (string \<times> string) list \<Rightarrow> error option" where
  "checkComponents keyID keyType [] = None"
| "checkComponents keyID keyType ((component, message) # reqs) =
     (if \<not> Contains keyID component then Some (GcpKeyComponent keyType message)
      else checkComponents keyID keyType reqs)"

definition validateGCPKeyID :: "string \<Rightarrow> string \<Rightarrow> error option" where
  "validateGCPKeyID keyID keyType =
     (if keyID = [] then None else checkComponents keyID keyType requiredComponents)"

text \<open>The closure \<open>validateAzureKeyID\<close>, with the two slice expressions.\<close>

definition validateAzureKeyID :: "string \<Rightarrow> string \<Rightarrow> error option" where
  "validateAzureKeyID keyID keyType =
     (if keyID = [] then None
      else if \<not> HasPrefix keyID ''azurekms:name='' then Some (AzureKeyPrefix keyType)
      else
        (let nameStart = Index keyID ''name='' + 5;
             vaultIndex = Index keyID '';vault=''
         in if vaultIndex = - 1 then Some (AzureVaultParam keyType)
            else (case slice keyID nameStart vaultIndex of
                    None \<Rightarrow> Some Panic
                  | Some name \<Rightarrow>
                      if TrimSpace name = [] then Some (KeyNameEmpty keyType)
                      else (case sliceFrom keyID (vaultIndex + 7) of
                              None \<Rightarrow> Some Panic
                            | Some vault \<Rightarrow>
                                if TrimSpace vault = [] then Some (VaultNameEmpty keyType)
                                else None))))"

text \<open>
  The closure \<open>validateHashiVaultKeyID\<close>. The reads \<open>parts[0]\<close>, \<open>parts[1]\<close>,
  \<open>parts[2]\<close> come after the test \<open>len(parts) < 3\<close>.
\<close>

definition validateHashiVaultKeyID :: "string \<Rightarrow> string \<Rightarrow> error option" where
  "validateHashiVaultKeyID keyID keyType =
     (if keyID = [] then None
      else
        (let parts = Split keyID ''/'' in
         if length parts < 3 then Some (HashiKeyFormat keyType)
         else if parts ! 0 \<noteq> ''transit'' \<or> parts ! 1 \<noteq> ''keys''
           then Some (HashiKeyPrefix keyType)
         else if parts ! 2 = [] then Some (KeyNameEmpty keyType)
         else None))"

text \<open>
  Each provider validates \<open>RootKeyID\<close>, \<open>IntermediateKeyID\<close> and \<open>LeafKeyID\<close> in
  this order and returns the first error.
\<close>

definition validateKeyIDs :: "(string \<Rightarrow> string \<Rightarrow> error option) \<Rightarrow> KMSConfig \<Rightarrow> error option" where
  "validateKeyIDs validate config =
     (case validate (RootKeyID config) ''RootKeyID'' of
        Some err \<Rightarrow> Some err
      | None \<Rightarrow>
          (case validate (IntermediateKeyID config) ''IntermediateKeyID'' of
             Some err \<Rightarrow> Some err
           | None \<Rightarrow> validate (LeafKeyID config) ''LeafKeyID''))"

text \<open>The last two checks of \<open>ValidateKMSConfig\<close>, after the switch.\<close>

definition checkKeyIDsSpecified :: "KMSConfig \<Rightarrow> error option" where
  "checkKeyIDsSpecified config =
     (if RootKeyID config = [] then Some RootKeyIDRequired
      else if LeafKeyID config = [] then Some LeafKeyIDRequired
      else None)"

definition ValidateKMSConfig :: "KMSConfig \<Rightarrow> error option" where
  "ValidateKMSConfig config =
     (if Type config = [] then Some KMSTypeEmpty
      else if Type config = ''awskms'' then
        (if Options config = None \<or> option_value (Options config) ''aws-region'' = []
         then Some AwsRegionRequired
         else (case validateKeyIDs (validateAWSKeyID config) config of
                 Some err \<Rightarrow> Some err
               | None \<Rightarrow> checkKeyIDsSpecified config))
      else if Type config = ''gcpkms'' then
        (if Options config = None \<or> option_value (Options config) ''gcp-credentials-file'' = []
         then Some GcpCredentialsRequired
         else (case validateKeyIDs validateGCPKeyID config of
                 Some err \<Rightarrow> Some err
               | None \<Rightarrow> checkKeyIDsSpecified config))
      else if Type config = ''azurekms'' then
        (if Options config = None then Some AzureOptionsRequired
         else if option_value (Options config) ''azure-tenant-id'' = []
           then Some AzureTenantRequired
         else (case validateKeyIDs validateAzureKeyID config of
                 Some err \<Rightarrow> Some err
               | None \<Rightarrow> checkKeyIDsSpecified config))
      else if Type config = ''hashivault'' then
        (if Options config = None then Some HashiOptionsRequired
         else if option_value (Options config) ''vault-token'' = []
           then Some VaultTokenRequired
         else if option_value (Options config) ''vault-address'' = []
           then Some VaultAddressRequired
         else (case validateKeyIDs validateHashiVaultKeyID config of
                 Some err \<Rightarrow> Some err
               | None \<Rightarrow> checkKeyIDsSpecified config))
      else Some (UnsupportedType (Type config)))"

section \<open>The world: environment, files, output, collaborators\<close>

text \<open>
  A signer handle (\<open>signature.SignerVerifier\<close>) is known by what its methods return:
  \<open>PublicKey()\<close>, and \<open>CryptoSigner(ctx, nil)\<close> when the dynamic type implements
  \<open>CryptoSignerVerifier\<close> (\<open>None\<close> when the type assertion fails). Public keys
  and \<open>crypto.Signer\<close> values are opaque handles.
\<close>

type_synonym PublicKey = string
type_synonym Signer = string

record SignerVerifier =
  PublicKey :: "error + PublicKey"
  CryptoSigner :: "(error + Signer) option"

text \<open>
  An \<open>x509.Certificate\<close>: the fields the package reads or writes, and the rest of the
  structure as one opaque value. Templates are values of the same type. A
  \<open>*x509.Certificate\<close> is a \<open>Certificate option\<close>, \<open>None\<close> the nil pointer.
\<close>

record Certificate =
  Raw :: string
  IsCA :: bool
  SignatureAlgorithm :: nat
  Contents :: string

text \<open>
  The calls to the signing collaborators, with their arguments:
  \<open>ca.ToSignatureAlgorithm(signer, crypto.SHA256)\<close> and
  \<open>x509util.CreateCertificate(template, parent, pub, signer)\<close>.
\<close>

datatype sign_call =
    Call_ToSignatureAlgorithm Signer
  | Call_CreateCertificate Certificate "Certificate option" PublicKey Signer

text \<open>
  The state the package acts on: the process environment, the files, the lines printed
  on standard output, and records of the calls made, in order: the references given to
  \<open>kms.Get\<close> and the calls to the signing collaborators. The package writes nothing
  to \<open>initkms_calls\<close>; an \<open>InitKMS\<close> that records the configurations it is given
  (\<open>recording\<close>, below) keeps them there.
\<close>

record world =
  env :: "string \<rightharpoonup> string"
  files :: "string \<rightharpoonup> string"
  stdout :: "string list"
  kms_calls :: "string list"
  sign_calls :: "sign_call list"
  initkms_calls :: "KMSConfig list"

text \<open>
  The collaborators are parameters. \<open>kms_Get\<close> returns Go's pair
  \<open>(sv, err)\<close>. \<open>os_Create\<close> says whether creating the file fails, and
  \<open>write_fault\<close> whether writing to it fails and after how many bytes;
  \<open>pem_EncodeToMemory\<close> is the PEM text of a block, given its type and bytes.
\<close>

record externals =
  kms_Get :: "world \<Rightarrow> string \<Rightarrow> SignerVerifier option \<times> error option"
  GetDefaultTemplate :: "string \<Rightarrow> error + string"
  ParseTemplate :: "string \<Rightarrow> Certificate option \<Rightarrow> int \<Rightarrow> PublicKey \<Rightarrow> string \<Rightarrow> error + Certificate"
  ToSignatureAlgorithm :: "Signer \<Rightarrow> error + nat"
  x509util_CreateCertificate ::
    "Certificate \<Rightarrow> Certificate option \<Rightarrow> PublicKey \<Rightarrow> Signer \<Rightarrow> error + Certificate option"
  CheckSignatureFrom :: "Certificate \<Rightarrow> Certificate \<Rightarrow> error option"
  os_Create :: "world \<Rightarrow> string \<Rightarrow> error option"
  write_fault :: "world \<Rightarrow> string \<Rightarrow> (nat \<times> error) option"
  pem_EncodeToMemory :: "string \<Rightarrow> string \<Rightarrow> string"
  time_Now :: "world \<Rightarrow> int"

text \<open>
  \<open>os.Setenv\<close> fails, and sets nothing, when the value holds a NUL byte (the keys
  here are literals); the package ignores its result.
\<close>

definition Setenv :: "string \<Rightarrow> string \<Rightarrow> world \<Rightarrow> world" where
  "Setenv k v w = (if CHR 0x00 \<in> set v then w else w\<lparr>env := (env w)(k \<mapsto> v)\<rparr>)"

definition os_ReadFile :: "world \<Rightarrow> string \<Rightarrow> error + string" where
  "os_ReadFile w path =
     (case files w path of None \<Rightarrow> Inl (External ''no such file'') | Some content \<Rightarrow> Inr content)"

section \<open>InitKMS\<close>

text \<open>The call \<open>kms.Get(ctx, ref, crypto.SHA256)\<close>, recorded.\<close>

definition call_kms_Get ::
  "externals \<Rightarrow> string \<Rightarrow> world \<Rightarrow> (SignerVerifier option \<times> error option) \<times> world" where
  "call_kms_Get ext ref w = (kms_Get ext w ref, w\<lparr>kms_calls := kms_calls w @ [ref]\<rparr>)"

text \<open>
  The statements after the switch: \<open>err\<close> and \<open>sv\<close> are tested once more.
\<close>

definition checkSigner ::
  "SignerVerifier option \<times> error option \<Rightarrow> world \<Rightarrow> (error + SignerVerifier) \<times> world" where
  "checkSigner r w =
     (case r of
        (sv, Some err) \<Rightarrow> (Inl (Wrapped ''failed to get KMS signer'' err), w)
      | (None, None) \<Rightarrow> (Inl NilSigner, w)
      | (Some sv, None) \<Rightarrow> (Inr sv, w))"

text \<open>
  One case of the switch after its reference is built and the environment set: the call
  to the provider, and the return with the provider's error wrapped.
\<close>

definition getSigner ::
  "externals \<Rightarrow> string \<Rightarrow> string \<Rightarrow> world \<Rightarrow> (error + SignerVerifier) \<times> world" where
  "getSigner ext failure ref w =
     (case call_kms_Get ext ref w of
        ((sv, Some err), w') \<Rightarrow> (Inl (Wrapped failure err), w')
      | ((sv, None), w') \<Rightarrow> checkSigner (sv, None) w')"

text \<open>
  The Azure key URI (the first statements of case \<open>"azurekms"\<close>); \<open>None\<close> is a
  panic of one of the two slice expressions.
\<close>

definition azureKeyURI :: "string \<Rightarrow> string option" where
  "azureKeyURI rootKeyID =
     (if HasPrefix rootKeyID ''azurekms:name='' then
        (let nameStart = Index rootKeyID ''name='' + 5;
             vaultIndex = Index rootKeyID '';vault=''
         in if vaultIndex \<noteq> - 1 then
              (case slice rootKeyID nameStart vaultIndex of
                 None \<Rightarrow> None
               | Some name \<Rightarrow>
                   (case sliceFrom rootKeyID (vaultIndex + 7) of
                      None \<Rightarrow> None
                    | Some vault \<Rightarrow>
                        Some (''azurekms://'' @ TrimSpace vault @ ''.vault.azure.net/''
                              @ TrimSpace name)))
            else Some rootKeyID)
      else Some rootKeyID)"

definition InitKMS :: "externals \<Rightarrow> KMSConfig \<Rightarrow> world \<Rightarrow> (error + SignerVerifier) \<times> world" where
  "InitKMS ext config w =
     (case ValidateKMSConfig config of
        Some err \<Rightarrow> (Inl (Wrapped ''invalid KMS configuration'' err), w)
      | None \<Rightarrow>
          if Type config = ''awskms'' then
            (let ref = ''awskms:///'' @ RootKeyID config;
                 awsRegion = option_value (Options config) ''aws-region'';
                 w1 = (if awsRegion \<noteq> [] then Setenv ''AWS_REGION'' awsRegion w else w)
             in getSigner ext ''failed to initialize AWS KMS'' ref w1)
          else if Type config = ''gcpkms'' then
            (let ref = ''gcpkms://'' @ RootKeyID config;
                 gcpCredsFile = option_value (Options config) ''gcp-credentials-file'';
                 w1 = (if gcpCredsFile \<noteq> [] then Setenv ''GCP_CREDENTIALS_FILE'' gcpCredsFile w
                       else w)
             in getSigner ext ''failed to initialize GCP KMS'' ref w1)
          else if Type config = ''azurekms'' then
            (case azureKeyURI (RootKeyID config) of
               None \<Rightarrow> (Inl Panic, w)
             | Some keyURI \<Rightarrow>
                 (let w1 = (if Options config \<noteq> None
                               \<and> option_value (Options config) ''azure-tenant-id'' \<noteq> []
                            then Setenv ''AZURE_ADDITIONALLY_ALLOWED_TENANTS'' ''*''
                                   (Setenv ''AZURE_TENANT_ID''
                                      (option_value (Options config) ''azure-tenant-id'') w)
                            else w);
                      w2 = Setenv ''AZURE_AUTHORITY_HOST'' ''https://login.microsoftonline.com/'' w1
                  in getSigner ext ''failed to initialize Azure KMS'' keyURI w2))
          else if Type config = ''hashivault'' then
            (let keyURI = ''hashivault://'' @ RootKeyID config;
                 w1 = (if Options config \<noteq> None then
                         (let vaultToken = option_value (Options config) ''vault-token'';
                              wt = (if vaultToken \<noteq> [] then Setenv ''VAULT_TOKEN'' vaultToken w
                                    else w);
                              vaultAddr = option_value (Options config) ''vault-address''
                          in if vaultAddr \<noteq> [] then Setenv ''VAULT_ADDR'' vaultAddr wt else wt)
                       else w)
             in getSigner ext ''failed to initialize HashiVault KMS'' keyURI w1)
          else (Inl (UnsupportedType (Type config)), w))"

section \<open>WriteCertificateToFile\<close>

text \<open>
  \<open>os.Create\<close> creates the file or truncates it. The status line is printed next, and
  \<open>pem.Encode\<close> writes last: when a write fails after \<open>n\<close> bytes the file holds
  the first \<open>n\<close> bytes of the PEM text. The deferred \<open>f.Close()\<close> changes nothing
  that the model holds.
\<close>

definition WriteCertificateToFile ::
  "externals \<Rightarrow> Certificate option \<Rightarrow> string \<Rightarrow> world \<Rightarrow> error option \<times> world" where
  "WriteCertificateToFile ext cert filename w =
     (case cert of
        None \<Rightarrow> (Some CertificateNil, w)
      | Some c \<Rightarrow>
          if length (Raw c) = 0 then (Some CertificateNoRaw, w)
          else
            (case os_Create ext w filename of
               Some err \<Rightarrow> (Some err, w)
             | None \<Rightarrow>
                 (let w1 = w\<lparr>files := (files w)(filename \<mapsto> [])\<rparr>;
                      certType =
                        (if IsCA c then
                           (if CheckSignatureFrom ext c c = None then ''root''
                            else ''intermediate'')
                         else ''leaf'');
                      w2 = w1\<lparr>stdout := stdout w1
                                 @ [''Saved '' @ certType @ '' cert to '' @ filename @ [CHR 0x0A]]\<rparr>;
                      pemText = pem_EncodeToMemory ext ''CERTIFICATE'' (Raw c)
                  in case write_fault ext w2 filename of
                       None \<Rightarrow> (None, w2\<lparr>files := (files w2)(filename \<mapsto> pemText)\<rparr>)
                     | Some (n, err) \<Rightarrow>
                         (Some err, w2\<lparr>files := (files w2)(filename \<mapsto> take n pemText)\<rparr>))))"

section \<open>CreateCertificates\<close>

text \<open>
  \<open>InitKMS\<close> is a package variable holding a function, so \<open>CreateCertificates\<close>
  calls whatever it holds: the model takes it as the parameter \<open>initKMS\<close>, whose
  default is \<open>InitKMS ext\<close>.
\<close>

type_synonym initKMS_fn = "KMSConfig \<Rightarrow> world \<Rightarrow> (error + SignerVerifier) \<times> world"

definition call_ToSignatureAlgorithm :: "externals \<Rightarrow> Signer \<Rightarrow> world \<Rightarrow> (error + nat) \<times> world" where
  "call_ToSignatureAlgorithm ext signer w =
     (ToSignatureAlgorithm ext signer,
      w\<lparr>sign_calls := sign_calls w @ [Call_ToSignatureAlgorithm signer]\<rparr>)"

definition call_CreateCertificate ::
  "externals \<Rightarrow> Certificate \<Rightarrow> Certificate option \<Rightarrow> PublicKey \<Rightarrow> Signer \<Rightarrow> world
   \<Rightarrow> (error + Certificate option) \<times> world" where
  "call_CreateCertificate ext template parent pub signer w =
     (x509util_CreateCertificate ext template parent pub signer,
      w\<lparr>sign_calls := sign_calls w @ [Call_CreateCertificate template parent pub signer]\<rparr>)"

text \<open>
  The template of a stage (\<open>"root"\<close>, \<open>"intermediate"\<close>, \<open>"leaf"\<close>): the default
  one when no path is given, the content of the file otherwise. The source has this
  block once for each stage.
\<close>

definition stageTemplate :: "externals \<Rightarrow> string \<Rightarrow> string \<Rightarrow> world \<Rightarrow> error + string" where
  "stageTemplate ext stage templatePath w =
     (if templatePath = [] then
        (case GetDefaultTemplate ext stage of
           Inl err \<Rightarrow> Inl (Wrapped (''error getting default '' @ stage @ '' template'') err)
         | Inr defaultTemplate \<Rightarrow> Inr defaultTemplate)
      else
        (case os_ReadFile w templatePath of
           Inl err \<Rightarrow> Inl (TemplateNotFound stage templatePath err)
         | Inr content \<Rightarrow> Inr content))"

text \<open>
  From the parsed template on, the three stages do the same with different arguments:
  the signature algorithm of \<open>algSigner\<close> is set on the template, the certificate is
  created for \<open>pub\<close> under \<open>parent\<close> with the key \<open>signKey\<close>, and written.
  The root stage has \<open>parent\<close> the template itself and both signers the root signer;
  the intermediate stage reads the algorithm from the intermediate signer and signs
  with the root signer; the leaf stage uses the signing key for both.
\<close>

definition signAndWrite ::
  "externals \<Rightarrow> string \<Rightarrow> Certificate \<Rightarrow> Signer \<Rightarrow> (Certificate \<Rightarrow> Certificate option)
   \<Rightarrow> PublicKey \<Rightarrow> Signer \<Rightarrow> string \<Rightarrow> world \<Rightarrow> (error + Certificate option) \<times> world" where
  "signAndWrite ext stage tmpl algSigner parent pub signKey certPath w =
     (case call_ToSignatureAlgorithm ext algSigner w of
        (Inl err, w1) \<Rightarrow> (Inl (Wrapped ''error determining signature algorithm'' err), w1)
      | (Inr alg, w1) \<Rightarrow>
          (let tmpl' = tmpl\<lparr>SignatureAlgorithm := alg\<rparr> in
           case call_CreateCertificate ext tmpl' (parent tmpl') pub signKey w1 of
             (Inl err, w2) \<Rightarrow> (Inl (Wrapped (''error creating '' @ stage @ '' certificate'') err), w2)
           | (Inr cert, w2) \<Rightarrow>
               (case WriteCertificateToFile ext cert certPath w2 of
                  (Some err, w3) \<Rightarrow>
                    (Inl (Wrapped (''error writing '' @ stage @ '' certificate'') err), w3)
                | (None, w3) \<Rightarrow> (Inr cert, w3))))"

text \<open>The root stage: from the first statement to the written root certificate.\<close>

definition rootStage ::
  "externals \<Rightarrow> SignerVerifier \<Rightarrow> KMSConfig \<Rightarrow> string \<Rightarrow> string \<Rightarrow> int \<Rightarrow> world
   \<Rightarrow> (error + Certificate option \<times> Signer) \<times> world" where
  "rootStage ext sv config rootTemplatePath rootCertPath rootLifetime w =
     (case PublicKey sv of
        Inl err \<Rightarrow> (Inl (Wrapped ''error getting root public key'' err), w)
      | Inr rootPubKey \<Rightarrow>
          (case CryptoSigner sv of
             None \<Rightarrow> (Inl (NotCryptoSigner ''signer''), w)
           | Some (Inl err) \<Rightarrow> (Inl (Wrapped ''error getting root crypto signer'' err), w)
           | Some (Inr rootSigner) \<Rightarrow>
               (case stageTemplate ext ''root'' rootTemplatePath w of
                  Inl err \<Rightarrow> (Inl err, w)
                | Inr rootTemplate \<Rightarrow>
                    (let rootNotAfter = time_Now ext w + rootLifetime in
                     case ParseTemplate ext rootTemplate None rootNotAfter rootPubKey
                            (CommonName config) of
                       Inl err \<Rightarrow> (Inl (Wrapped ''error parsing root template'' err), w)
                     | Inr rootTmpl \<Rightarrow>
                         (case signAndWrite ext ''root'' rootTmpl rootSigner Some rootPubKey
                                 rootSigner rootCertPath w of
                            (Inl err, w') \<Rightarrow> (Inl err, w')
                          | (Inr rootCert, w') \<Rightarrow> (Inr (rootCert, rootSigner), w'))))))"

text \<open>
  The intermediate stage (the branch \<open>intermediateKeyID != ""\<close>); its result is the
  pair \<open>(signingCert, signingKey)\<close> that the branch assigns last.
\<close>

definition intermediateStage ::
  "externals \<Rightarrow> initKMS_fn \<Rightarrow> KMSConfig \<Rightarrow> Certificate option \<Rightarrow> Signer
   \<Rightarrow> string \<Rightarrow> string \<Rightarrow> string \<Rightarrow> int \<Rightarrow> world
   \<Rightarrow> (error + Certificate option \<times> Signer) \<times> world" where
  "intermediateStage ext initKMS config rootCert rootSigner
       intermediateKeyID intermediateTemplatePath intermediateCertPath intermediateLifetime w =
     (let intermediateConfig = config\<lparr>RootKeyID := intermediateKeyID\<rparr> in
      case initKMS intermediateConfig w of
        (Inl err, w1) \<Rightarrow> (Inl (Wrapped ''error initializing intermediate KMS'' err), w1)
      | (Inr intermediateSV, w1) \<Rightarrow>
          (case PublicKey intermediateSV of
             Inl err \<Rightarrow> (Inl (Wrapped ''error getting intermediate public key'' err), w1)
           | Inr intermediatePubKey \<Rightarrow>
               (case CryptoSigner intermediateSV of
                  None \<Rightarrow> (Inl (NotCryptoSigner ''intermediate signer''), w1)
                | Some (Inl err) \<Rightarrow>
                    (Inl (Wrapped ''error getting intermediate crypto signer'' err), w1)
                | Some (Inr intermediateSigner) \<Rightarrow>
                    (case stageTemplate ext ''intermediate'' intermediateTemplatePath w1 of
                       Inl err \<Rightarrow> (Inl err, w1)
                     | Inr intermediateTemplate \<Rightarrow>
                         (let intermediateNotAfter = time_Now ext w1 + intermediateLifetime in
                          case ParseTemplate ext intermediateTemplate rootCert
                                 intermediateNotAfter intermediatePubKey (CommonName config) of
                            Inl err \<Rightarrow>
                              (Inl (Wrapped ''error parsing intermediate template'' err), w1)
                          | Inr intermediateTmpl \<Rightarrow>
                              (case signAndWrite ext ''intermediate'' intermediateTmpl
                                      intermediateSigner (\<lambda>_. rootCert) intermediatePubKey
                                      rootSigner intermediateCertPath w1 of
                                 (Inl err, w') \<Rightarrow> (Inl err, w')
                               | (Inr intermediateCert, w') \<Rightarrow>
                                   (Inr (intermediateCert, intermediateSigner), w')))))))"

text \<open>
  The leaf stage, from \<open>leafConfig := config\<close> to the end. The value that
  \<open>leafCryptoSV.CryptoSigner\<close> returns is assigned to the blank identifier.
\<close>

definition leafStage ::
  "externals \<Rightarrow> initKMS_fn \<Rightarrow> KMSConfig \<Rightarrow> Certificate option \<Rightarrow> Signer
   \<Rightarrow> string \<Rightarrow> string \<Rightarrow> int \<Rightarrow> world \<Rightarrow> error option \<times> world" where
  "leafStage ext initKMS config signingCert signingKey leafTemplatePath leafCertPath leafLifetime w =
     (let leafConfig = config\<lparr>RootKeyID := LeafKeyID config\<rparr> in
      case initKMS leafConfig w of
        (Inl err, w1) \<Rightarrow> (Some (Wrapped ''error initializing leaf KMS'' err), w1)
      | (Inr leafSV, w1) \<Rightarrow>
          (case PublicKey leafSV of
             Inl err \<Rightarrow> (Some (Wrapped ''error getting leaf public key'' err), w1)
           | Inr leafPubKey \<Rightarrow>
               (case CryptoSigner leafSV of
                  None \<Rightarrow> (Some (NotCryptoSigner ''leaf signer''), w1)
                | Some (Inl err) \<Rightarrow> (Some (Wrapped ''error getting leaf crypto signer'' err), w1)
                | Some (Inr _) \<Rightarrow>
                    (case stageTemplate ext ''leaf'' leafTemplatePath w1 of
                       Inl err \<Rightarrow> (Some err, w1)
                     | Inr leafTemplate \<Rightarrow>
                         (let leafNotAfter = time_Now ext w1 + leafLifetime in
                          case ParseTemplate ext leafTemplate signingCert leafNotAfter leafPubKey
                                 (CommonName config) of
                            Inl err \<Rightarrow> (Some (Wrapped ''error parsing leaf template'' err), w1)
                          | Inr leafTmpl \<Rightarrow>
                              (case signAndWrite ext ''leaf'' leafTmpl signingKey
                                      (\<lambda>_. signingCert) leafPubKey signingKey leafCertPath w1 of
                                 (Inl err, w') \<Rightarrow> (Some err, w')
                               | (Inr leafCert, w') \<Rightarrow> (None, w')))))))"

text \<open>
  The statements up to the leaf stage: the root stage, then the intermediate stage when
  \<open>intermediateKeyID\<close> is not empty. The result is the pair
  \<open>(signingCert, signingKey)\<close>, which the \<open>else\<close> branch sets to the root
  certificate and the root signer.
\<close>

definition signingStages ::
  "externals \<Rightarrow> initKMS_fn \<Rightarrow> SignerVerifier \<Rightarrow> KMSConfig
   \<Rightarrow> string \<Rightarrow> string \<Rightarrow> string \<Rightarrow> string \<Rightarrow> string \<Rightarrow> int \<Rightarrow> int \<Rightarrow> world
   \<Rightarrow> (error + Certificate option \<times> Signer) \<times> world" where
  "signingStages ext initKMS sv config rootTemplatePath rootCertPath
       intermediateKeyID intermediateTemplatePath intermediateCertPath
       rootLifetime intermediateLifetime w =
     (case rootStage ext sv config rootTemplatePath rootCertPath rootLifetime w of
        (Inl err, w1) \<Rightarrow> (Inl err, w1)
      | (Inr (rootCert, rootSigner), w1) \<Rightarrow>
          if intermediateKeyID \<noteq> [] then
            intermediateStage ext initKMS config rootCert rootSigner intermediateKeyID
              intermediateTemplatePath intermediateCertPath intermediateLifetime w1
          else (Inr (rootCert, rootSigner), w1))"

definition CreateCertificates ::
  "externals \<Rightarrow> initKMS_fn \<Rightarrow> SignerVerifier \<Rightarrow> KMSConfig
   \<Rightarrow> string \<Rightarrow> string \<Rightarrow> string \<Rightarrow> string \<Rightarrow> string \<Rightarrow> string \<Rightarrow> string
   \<Rightarrow> int \<Rightarrow> int \<Rightarrow> int \<Rightarrow> world \<Rightarrow> error option \<times> world" where
  "CreateCertificates ext initKMS sv config rootTemplatePath leafTemplatePath
       rootCertPath leafCertPath intermediateKeyID intermediateTemplatePath intermediateCertPath
       rootLifetime intermediateLifetime leafLifetime w =
     (case signingStages ext initKMS sv config rootTemplatePath rootCertPath
             intermediateKeyID intermediateTemplatePath intermediateCertPath
             rootLifetime intermediateLifetime w of
        (Inl err, w2) \<Rightarrow> (Some err, w2)
      | (Inr (signingCert, signingKey), w2) \<Rightarrow>
          leafStage ext initKMS config signingCert signingKey leafTemplatePath leafCertPath
            leafLifetime w2)"

section \<open>The specification's words\<close>

text \<open>
  The definitions of this section follow the specification, not the code: which
  provider types there are and which options each requires, the error that names the
  type or the missing option, the grammar of the key identifiers of each provider, and
  the classification of a certificate as root, intermediate or leaf.
\<close>

definition recognizedType :: "string \<Rightarrow> bool" where
  "recognizedType t =
     (t = ''awskms'' \<or> t = ''gcpkms'' \<or> t = ''azurekms'' \<or> t = ''hashivault'')"

definition missingRequiredOption :: "KMSConfig \<Rightarrow> bool" where
  "missingRequiredOption config =
     ((Type config = ''awskms'' \<and> option_value (Options config) ''aws-region'' = [])
      \<or> (Type config = ''gcpkms'' \<and> option_value (Options config) ''gcp-credentials-file'' = [])
      \<or> (Type config = ''azurekms'' \<and> option_value (Options config) ''azure-tenant-id'' = [])
      \<or> (Type config = ''hashivault''
          \<and> (option_value (Options config) ''vault-token'' = []
              \<or> option_value (Options config) ''vault-address'' = [])))"

definition typeOrOptionError :: "KMSConfig \<Rightarrow> error" where
  "typeOrOptionError config =
     (if Type config = [] then KMSTypeEmpty
      else if Type config = ''awskms'' then AwsRegionRequired
      else if Type config = ''gcpkms'' then GcpCredentialsRequired
      else if Type config = ''azurekms'' then
        (if Options config = None then AzureOptionsRequired else AzureTenantRequired)
      else if Type config = ''hashivault'' then
        (if Options config = None then HashiOptionsRequired
         else if option_value (Options config) ''vault-token'' = [] then VaultTokenRequired
         else VaultAddressRequired)
      else UnsupportedType (Type config))"

text \<open>
  The grammars. An AWS identifier is an ARN with at least six segments between colons,
  the fourth being the configured region, or an alias with a name. A GCP identifier
  contains each of five path components. An Azure identifier has the prefix, the
  separator, and a name and a vault on the two sides of the first separator: non-empty
  ones in \<open>azureKeyGrammar\<close>, which is what the specification says, and ones that
  are non-empty once the white space around them is removed in
  \<open>azureKeyGrammarTrimmed\<close>. A HashiVault identifier has at least three segments
  between slashes, \<open>transit\<close>, \<open>keys\<close> and a non-empty name.
\<close>

definition awsKeyGrammar :: "string \<Rightarrow> string \<Rightarrow> bool" where
  "awsKeyGrammar region keyID =
     ((HasPrefix keyID ''arn:aws:kms:'' \<and> 6 \<le> length (Split keyID '':'')
       \<and> Split keyID '':'' ! 3 = region)
      \<or> (HasPrefix keyID ''alias/'' \<and> drop (length ''alias/'') keyID \<noteq> []))"

definition gcpKeyGrammar :: "string \<Rightarrow> bool" where
  "gcpKeyGrammar keyID =
     (Contains keyID ''projects/'' \<and> Contains keyID ''/locations/''
      \<and> Contains keyID ''/keyRings/'' \<and> Contains keyID ''/cryptoKeys/''
      \<and> Contains keyID ''/cryptoKeyVersions/'')"

definition azureNamePart :: "string \<Rightarrow> string" where
  "azureNamePart keyID =
     take (nat (Index keyID '';vault='') - length ''azurekms:name='')
       (drop (length ''azurekms:name='') keyID)"

definition azureVaultPart :: "string \<Rightarrow> string" where
  "azureVaultPart keyID = drop (nat (Index keyID '';vault='') + length '';vault='') keyID"

definition azureKeyGrammar :: "string \<Rightarrow> bool" where
  "azureKeyGrammar keyID =
     (HasPrefix keyID ''azurekms:name='' \<and> Contains keyID '';vault=''
      \<and> azureNamePart keyID \<noteq> [] \<and> azureVaultPart keyID \<noteq> [])"

definition azureKeyGrammarTrimmed :: "string \<Rightarrow> bool" where
  "azureKeyGrammarTrimmed keyID =
     (HasPrefix keyID ''azurekms:name='' \<and> Contains keyID '';vault=''
      \<and> TrimSpace (azureNamePart keyID) \<noteq> [] \<and> TrimSpace (azureVaultPart keyID) \<noteq> [])"

definition hashiKeyGrammar :: "string \<Rightarrow> bool" where
  "hashiKeyGrammar keyID =
     (3 \<le> length (Split keyID ''/'') \<and> Split keyID ''/'' ! 0 = ''transit''
      \<and> Split keyID ''/'' ! 1 = ''keys'' \<and> Split keyID ''/'' ! 2 \<noteq> [])"

definition keyGrammar :: "KMSConfig \<Rightarrow> string \<Rightarrow> bool" where
  "keyGrammar config keyID =
     (if Type config = ''awskms''
        then awsKeyGrammar (option_value (Options config) ''aws-region'') keyID
      else if Type config = ''gcpkms'' then gcpKeyGrammar keyID
      else if Type config = ''azurekms'' then azureKeyGrammar keyID
      else if Type config = ''hashivault'' then hashiKeyGrammar keyID
      else False)"

definition keyGrammarTrimmed :: "KMSConfig \<Rightarrow> string \<Rightarrow> bool" where
  "keyGrammarTrimmed config keyID =
     (if Type config = ''awskms''
        then awsKeyGrammar (option_value (Options config) ''aws-region'') keyID
      else if Type config = ''gcpkms'' then gcpKeyGrammar keyID
      else if Type config = ''azurekms'' then azureKeyGrammarTrimmed keyID
      else if Type config = ''hashivault'' then hashiKeyGrammar keyID
      else False)"

text \<open>
  A certificate that is a CA and verifies against itself is a root, a CA that does not
  is an intermediate, and any other is a leaf. The status line names the kind and the
  path; \<open>created\<close> is the world once the file exists, empty, and the line is printed.
\<close>

definition specCertType :: "externals \<Rightarrow> Certificate \<Rightarrow> string" where
  "specCertType ext c =
     (if IsCA c \<and> CheckSignatureFrom ext c c = None then ''root''
      else if IsCA c \<and> CheckSignatureFrom ext c c \<noteq> None then ''intermediate''
      else ''leaf'')"

definition statusLine :: "string \<Rightarrow> string \<Rightarrow> string" where
  "statusLine certType path = ''Saved '' @ certType @ '' cert to '' @ path @ [CHR 0x0A]"

definition created :: "externals \<Rightarrow> Certificate \<Rightarrow> string \<Rightarrow> world \<Rightarrow> world" where
  "created ext c path w =
     w\<lparr>files := (files w)(path \<mapsto> []),
       stdout := stdout w @ [statusLine (specCertType ext c) path]\<rparr>"

text \<open>
  For the calls to \<open>InitKMS\<close>: an \<open>InitKMS\<close> that first records the configuration
  it is given; the configuration of a stage, which is the original one in every field
  but \<open>RootKeyID\<close>, where it has the key of the stage; and the configurations that a
  complete run gives to \<open>InitKMS\<close>, in order.
\<close>

definition recording :: "initKMS_fn \<Rightarrow> initKMS_fn" where
  "recording initKMS config w = initKMS config (w\<lparr>initkms_calls := initkms_calls w @ [config]\<rparr>)"

definition stageConfig :: "KMSConfig \<Rightarrow> string \<Rightarrow> KMSConfig" where
  "stageConfig config keyID =
     \<lparr>CommonName = CommonName config, Type = Type config, RootKeyID = keyID,
      IntermediateKeyID = IntermediateKeyID config, LeafKeyID = LeafKeyID config,
      Options = Options config\<rparr>"

definition expectedInitKMSConfigs :: "KMSConfig \<Rightarrow> string \<Rightarrow> KMSConfig list" where
  "expectedInitKMSConfigs config intermediateKeyID =
     (if intermediateKeyID \<noteq> [] then [stageConfig config intermediateKeyID] else [])
     @ [stageConfig config (LeafKeyID config)]"

text \<open>
  An \<open>InitKMS\<close> whose signer handles return another signing capability: \<open>h s\<close>
  where the original returns \<open>s\<close>. The public key, the missing capability and the
  errors are as in the original.
\<close>

definition withLeafSigner :: "(Signer \<Rightarrow> Signer) \<Rightarrow> initKMS_fn \<Rightarrow> initKMS_fn" where
  "withLeafSigner h initKMS config w =
     (case initKMS config w of
        (Inl err, w') \<Rightarrow> (Inl err, w')
      | (Inr sv, w') \<Rightarrow>
          (Inr (sv\<lparr>CryptoSigner :=
                     (case CryptoSigner sv of
                        None \<Rightarrow> None
                      | Some (Inl err) \<Rightarrow> Some (Inl err)
                      | Some (Inr s) \<Rightarrow> Some (Inr (h s)))\<rparr>), w'))"

text \<open>The signer a call to a signing collaborator is given.\<close>

fun call_signer :: "sign_call \<Rightarrow> Signer" where
  "call_signer (Call_ToSignatureAlgorithm signer) = signer"
| "call_signer (Call_CreateCertificate template parent pub signer) = signer"

text \<open>
  The world once a stage has asked for the signature algorithm of \<open>algSigner\<close> and
  has had the template signed under \<open>parent\<close> with the key \<open>signKey\<close>: the two
  calls are on record, with their arguments.
\<close>

definition afterSigning ::
  "world \<Rightarrow> Signer \<Rightarrow> Certificate \<Rightarrow> Certificate option \<Rightarrow> PublicKey \<Rightarrow> Signer \<Rightarrow> world" where
  "afterSigning w algSigner template parent pub signKey =
     w\<lparr>sign_calls := sign_calls w @
          [Call_ToSignatureAlgorithm algSigner,
           Call_CreateCertificate template parent pub signKey]\<rparr>"

section \<open>Concrete inputs\<close>

text \<open>
  Configurations, collaborators and a world on which the theorems below are run. The
  collaborators are stand-ins: the public key and the signer of a KMS reference carry its
  name, a certificate's raw bytes name its subject key and the key that signed it, and a
  signature verifies when the signing key is the one of the parent's public key.
\<close>

definition cfg_noregion :: KMSConfig where
  "cfg_noregion = \<lparr>CommonName = ''ca'', Type = ''awskms'', RootKeyID = [], IntermediateKeyID = [],
     LeafKeyID = [], Options = Some Map.empty\<rparr>"

definition cfg_aws :: KMSConfig where
  "cfg_aws = \<lparr>CommonName = ''ca'', Type = ''awskms'',
     RootKeyID = ''arn:aws:kms:us-east-1:1234:key/root'', IntermediateKeyID = [],
     LeafKeyID = ''alias/leaf'', Options = Some [''aws-region'' \<mapsto> ''us-east-1'']\<rparr>"

definition cfg_azure_blank :: KMSConfig where
  "cfg_azure_blank = \<lparr>CommonName = ''ca'', Type = ''azurekms'',
     RootKeyID = ''azurekms:name= ;vault=v'', IntermediateKeyID = [],
     LeafKeyID = ''azurekms:name=leaf;vault=v'', Options = Some [''azure-tenant-id'' \<mapsto> ''t'']\<rparr>"

definition cfg_azure :: KMSConfig where
  "cfg_azure = \<lparr>CommonName = ''ca'', Type = ''azurekms'',
     RootKeyID = ''azurekms:name=k;vault=v'', IntermediateKeyID = [],
     LeafKeyID = ''azurekms:name=leaf;vault=v'', Options = Some [''azure-tenant-id'' \<mapsto> ''t'']\<rparr>"

definition cfg_azure_padded :: KMSConfig where
  "cfg_azure_padded = \<lparr>CommonName = ''ca'', Type = ''azurekms'',
     RootKeyID = ''azurekms:name= k;vault=v'', IntermediateKeyID = [],
     LeafKeyID = ''azurekms:name=leaf;vault=v'', Options = Some [''azure-tenant-id'' \<mapsto> ''t'']\<rparr>"

definition demo_sv :: "string \<Rightarrow> SignerVerifier" where
  "demo_sv ref = \<lparr>PublicKey = Inr (''pub:'' @ ref), CryptoSigner = Some (Inr (''key:'' @ ref))\<rparr>"

definition demo_ext :: externals where
  "demo_ext =
     \<lparr>kms_Get = (\<lambda>w ref. (Some (demo_sv ref), None)),
      GetDefaultTemplate = (\<lambda>stage. Inr stage),
      ParseTemplate = (\<lambda>src parent notAfter pub cn.
         Inr \<lparr>Raw = [], IsCA = (src \<noteq> ''leaf''), SignatureAlgorithm = 0, Contents = pub\<rparr>),
      ToSignatureAlgorithm = (\<lambda>signer. Inr (length signer)),
      x509util_CreateCertificate = (\<lambda>template parent pub signer.
         Inr (Some (template\<lparr>Raw := ''cert:'' @ pub @ '':by:'' @ signer\<rparr>))),
      CheckSignatureFrom = (\<lambda>c parent.
         if Raw c = ''cert:'' @ Contents c @ '':by:key'' @ drop 3 (Contents parent) then None
         else Some (External ''x509: signature check failed'')),
      os_Create = (\<lambda>w path.
         if path = [] then Some (External ''open: no such file or directory'') else None),
      write_fault = (\<lambda>w path.
         if path = ''/dev/full'' then Some (0, External ''write: no space left on device'')
         else None),
      pem_EncodeToMemory = (\<lambda>ty bytes.
         ''-----BEGIN '' @ ty @ ''-----'' @ bytes @ ''-----END '' @ ty @ ''-----''),
      time_Now = (\<lambda>w. 0)\<rparr>"

definition world0 :: world where
  "world0 = \<lparr>env = Map.empty, files = Map.empty, stdout = [], kms_calls = [],
     sign_calls = [], initkms_calls = []\<rparr>"

definition root_cert :: Certificate where
  "root_cert = \<lparr>Raw = ''cert:pub:r:by:key:r'', IsCA = True, SignatureAlgorithm = 5,
     Contents = ''pub:r''\<rparr>"

text \<open>
  Runs of the chain build with the stand-in collaborators: the root signer is the handle
  of the reference \<open>root\<close>, the templates are the default ones, and
  \<open>demo_initKMS cs\<close> is an \<open>InitKMS\<close> whose handles have \<open>cs\<close> as their
  signing capability.
\<close>

definition demo_initKMS :: "(error + Signer) option \<Rightarrow> initKMS_fn" where
  "demo_initKMS cs config w =
     (Inr \<lparr>PublicKey = Inr (''pub:'' @ RootKeyID config), CryptoSigner = cs\<rparr>, w)"

definition demo_stages :: "initKMS_fn \<Rightarrow> string \<Rightarrow> (error + Certificate option \<times> Signer) \<times> world" where
  "demo_stages initKMS intermediateKeyID =
     signingStages demo_ext initKMS (demo_sv ''root'') cfg_aws [] ''root.pem''
       intermediateKeyID [] ''intermediate.pem'' 10 5 world0"

definition demo_create :: "initKMS_fn \<Rightarrow> string \<Rightarrow> error option \<times> world" where
  "demo_create initKMS intermediateKeyID =
     CreateCertificates demo_ext initKMS (demo_sv ''root'') cfg_aws [] [] ''root.pem'' ''leaf.pem''
       intermediateKeyID [] ''intermediate.pem'' 10 5 1 world0"

definition demo_root_cert :: Certificate where
  "demo_root_cert = \<lparr>Raw = ''cert:pub:root:by:key:root'', IsCA = True, SignatureAlgorithm = 8,
     Contents = ''pub:root''\<rparr>"

definition demo_leaf_sv :: "(error + Signer) option \<Rightarrow> SignerVerifier" where
  "demo_leaf_sv cs = \<lparr>PublicKey = Inr ''pub:alias/leaf'', CryptoSigner = cs\<rparr>"

text \<open>
  The intermediate certificate and the leaf template of the run with the intermediate key
  \<open>alias/inter\<close>.
\<close>

definition demo_inter_cert :: Certificate where
  "demo_inter_cert = \<lparr>Raw = ''cert:pub:awskms:///alias/inter:by:key:root'', IsCA = True,
     SignatureAlgorithm = 25, Contents = ''pub:awskms:///alias/inter''\<rparr>"

definition demo_leaf_tmpl :: Certificate where
  "demo_leaf_tmpl = \<lparr>Raw = [], IsCA = False, SignatureAlgorithm = 25,
     Contents = ''pub:awskms:///alias/leaf''\<rparr>"

section \<open>Properties of the string functions\<close>

text \<open>
  The library functions above do what their documentation says: a prefix is an initial
  segment, \<open>Index\<close> is the first position where the substring starts, and
  \<open>Contains\<close> holds of the strings that have the substring somewhere.
\<close>

lemma Index_lower: "- 1 \<le> Index s sub"
  by (induction s) (auto simp: Let_def)

lemma HasPrefix_Nil [simp]: "HasPrefix s []"
  by (simp add: HasPrefix_def)

lemma HasPrefix_Nil_left [simp]: "HasPrefix [] (d # ds) = False"
  by (simp add: HasPrefix_def)

lemma HasPrefix_Cons [simp]: "HasPrefix (c # cs) (d # ds) = (c = d \<and> HasPrefix cs ds)"
  by (auto simp: HasPrefix_def)

lemma HasPrefix_iff_append: "HasPrefix s p = (\<exists>r. s = p @ r)"
proof
  assume "HasPrefix s p"
  then have "s = p @ drop (length p) s"
    by (metis HasPrefix_def append_take_drop_id)
  then show "\<exists>r. s = p @ r" ..
next
  assume "\<exists>r. s = p @ r"
  then show "HasPrefix s p" by (auto simp: HasPrefix_def)
qed

lemma Index_found:
  "0 \<le> Index s sub \<Longrightarrow> HasPrefix (drop (nat (Index s sub)) s) sub"
proof (induction s)
  case Nil
  then show ?case by (simp split: if_splits)
next
  case (Cons c cs)
  show ?case
  proof (cases "HasPrefix (c # cs) sub")
    case True
    then show ?thesis by simp
  next
    case False
    with Cons.prems have nn: "0 \<le> Index cs sub" and eq: "Index (c # cs) sub = Index cs sub + 1"
      by (auto simp: Let_def split: if_splits)
    from Cons.IH [OF nn] have "HasPrefix (drop (nat (Index cs sub)) cs) sub" .
    moreover from nn have "nat (Index cs sub + 1) = Suc (nat (Index cs sub))" by simp
    ultimately show ?thesis using eq by simp
  qed
qed

lemma Index_le_length: "Index s sub \<le> int (length s)"
  by (induction s) (auto simp: Let_def)

lemma Index_upper: "0 \<le> Index s sub \<Longrightarrow> Index s sub + int (length sub) \<le> int (length s)"
proof -
  assume nn: "0 \<le> Index s sub"
  from Index_found [OF nn] have "length sub \<le> length s - nat (Index s sub)"
    by (simp add: HasPrefix_def)
  with nn Index_le_length [of s sub] show ?thesis by linarith
qed

lemma Index_first:
  "0 \<le> Index s sub \<Longrightarrow> i < nat (Index s sub) \<Longrightarrow> \<not> HasPrefix (drop i s) sub"
proof (induction s arbitrary: i)
  case Nil
  then show ?case by (simp split: if_splits)
next
  case (Cons c cs)
  show ?case
  proof (cases "HasPrefix (c # cs) sub")
    case True
    with Cons.prems show ?thesis by simp
  next
    case False
    with Cons.prems have nn: "0 \<le> Index cs sub" and eq: "Index (c # cs) sub = Index cs sub + 1"
      by (auto simp: Let_def split: if_splits)
    show ?thesis
    proof (cases i)
      case 0
      with False show ?thesis by simp
    next
      case (Suc j)
      with Cons.prems(2) eq nn have "j < nat (Index cs sub)" by simp
      from Cons.IH [OF nn this] Suc show ?thesis by simp
    qed
  qed
qed

lemma Index_absent: "Index s sub < 0 \<Longrightarrow> \<not> HasPrefix (drop i s) sub"
proof (induction s arbitrary: i)
  case Nil
  then show ?case by (cases sub) (simp_all split: if_splits)
next
  case (Cons c cs)
  then have np: "\<not> HasPrefix (c # cs) sub" and neg: "Index cs sub < 0"
    by (auto simp: Let_def split: if_splits)
  show ?case
  proof (cases i)
    case 0
    with np show ?thesis by simp
  next
    case (Suc j)
    with Cons.IH [OF neg] show ?thesis by simp
  qed
qed

lemma Contains_iff: "Contains s sub = (\<exists>a b. s = a @ sub @ b)"
proof
  assume "Contains s sub"
  then have nn: "0 \<le> Index s sub" by (simp add: Contains_def)
  from Index_found [OF nn] obtain r where "drop (nat (Index s sub)) s = sub @ r"
    by (auto simp: HasPrefix_iff_append)
  then have "s = take (nat (Index s sub)) s @ sub @ r"
    by (metis append_take_drop_id)
  then show "\<exists>a b. s = a @ sub @ b" by blast
next
  assume "\<exists>a b. s = a @ sub @ b"
  then obtain a b where s: "s = a @ sub @ b" by blast
  show "Contains s sub"
  proof (rule ccontr)
    assume "\<not> Contains s sub"
    then have "Index s sub < 0" by (simp add: Contains_def)
    from Index_absent [OF this, of "length a"] s show False
      by (simp add: HasPrefix_iff_append)
  qed
qed

text \<open>
  With a separator of one byte, \<open>Split\<close> cuts at each occurrence of the byte: a
  string without it is one segment, and the first segment ends at its first occurrence.
\<close>

lemma Index_single_absent: "c \<notin> set s \<Longrightarrow> Index s [c] = - 1"
  by (induction s) (auto simp: Let_def)

lemma Index_single_first: "c \<notin> set a \<Longrightarrow> Index (a @ c # b) [c] = int (length a)"
  by (induction a) (auto simp: Let_def)

lemma Split_single_absent: "c \<notin> set s \<Longrightarrow> Split s [c] = [s]"
  by (subst Split.simps) (simp add: Index_single_absent)

lemma Split_single_first: "c \<notin> set a \<Longrightarrow> Split (a @ c # b) [c] = a # Split b [c]"
  by (subst Split.simps) (simp add: Index_single_first)

section \<open>Properties of the validation\<close>

lemma option_value_None [simp]: "option_value None k = []"
  by (simp add: option_value_def)

lemma validateAWSKeyID_iff:
  "keyID \<noteq> [] \<Longrightarrow>
   (validateAWSKeyID config keyID keyType = None)
     = awsKeyGrammar (option_value (Options config) ''aws-region'') keyID"
proof -
  assume ne: "keyID \<noteq> []"
  have excl: "HasPrefix keyID ''arn:aws:kms:'' \<Longrightarrow> \<not> HasPrefix keyID ''alias/''"
    by (auto simp: HasPrefix_iff_append)
  show ?thesis
  proof (cases "HasPrefix keyID ''arn:aws:kms:''")
    case True
    with ne excl show ?thesis
      by (auto simp: validateAWSKeyID_def awsKeyGrammar_def Let_def)
  next
    case False
    with ne show ?thesis
      by (auto simp: validateAWSKeyID_def awsKeyGrammar_def TrimPrefix_def)
  qed
qed

lemma validateGCPKeyID_iff:
  "keyID \<noteq> [] \<Longrightarrow> (validateGCPKeyID keyID keyType = None) = gcpKeyGrammar keyID"
  by (simp add: validateGCPKeyID_def requiredComponents_def gcpKeyGrammar_def)

lemma validateHashiVaultKeyID_iff:
  "keyID \<noteq> [] \<Longrightarrow> (validateHashiVaultKeyID keyID keyType = None) = hashiKeyGrammar keyID"
  by (auto simp: validateHashiVaultKeyID_def hashiKeyGrammar_def Let_def)

text \<open>Azure: the positions that the two slice expressions use.\<close>

lemma Index_name_after_prefix: "Index (''azurekms:name='' @ r) ''name='' = 9"
  by (simp add: Let_def)

lemma Index_vault_after_prefix:
  "Index (''azurekms:name='' @ r) '';vault='' =
     (if Index r '';vault='' < 0 then - 1 else Index r '';vault='' + 14)"
proof (cases "Index r '';vault='' < 0")
  case True
  then show ?thesis by (simp add: Let_def)
next
  case False
  then show ?thesis by (simp add: Let_def)
qed

lemma slice_after:
  "0 \<le> j \<Longrightarrow> j \<le> int (length r) \<Longrightarrow>
   slice (p @ r) (int (length p)) (j + int (length p)) = Some (take (nat j) r)"
  by (simp add: slice_def nat_add_distrib)

lemma sliceFrom_after:
  "0 \<le> j \<Longrightarrow> j \<le> int (length r) \<Longrightarrow>
   sliceFrom (p @ r) (j + int (length p)) = Some (drop (nat j) r)"
  by (simp add: sliceFrom_def slice_def nat_add_distrib)

lemma azure_prefix_length: "int (length ''azurekms:name='') = 14"
  by simp

lemma azure_slices:
  assumes "0 \<le> Index r '';vault=''"
  shows "slice (''azurekms:name='' @ r) 14 (Index r '';vault='' + 14)
           = Some (take (nat (Index r '';vault='')) r)"
    and "sliceFrom (''azurekms:name='' @ r) (Index r '';vault='' + 14 + 7)
           = Some (drop (nat (Index r '';vault='') + 7) r)"
proof -
  from Index_upper [OF assms] have up: "Index r '';vault='' + 7 \<le> int (length r)" by simp
  from assms up have le: "Index r '';vault='' \<le> int (length r)" by simp
  show "slice (''azurekms:name='' @ r) 14 (Index r '';vault='' + 14)
           = Some (take (nat (Index r '';vault='')) r)"
    using slice_after [OF assms le, of "''azurekms:name=''"] unfolding azure_prefix_length .
  have nn7: "0 \<le> Index r '';vault='' + 7" using assms by simp
  have a: "Index r '';vault='' + 14 + 7 = (Index r '';vault='' + 7) + 14" by simp
  have n: "nat (Index r '';vault='' + 7) = nat (Index r '';vault='') + 7"
    using assms by simp
  show "sliceFrom (''azurekms:name='' @ r) (Index r '';vault='' + 14 + 7)
           = Some (drop (nat (Index r '';vault='') + 7) r)"
    using sliceFrom_after [OF nn7 up, of "''azurekms:name=''"]
    unfolding azure_prefix_length a n .
qed

lemma azure_parts:
  assumes "0 \<le> Index r '';vault=''"
  shows "azureNamePart (''azurekms:name='' @ r) = take (nat (Index r '';vault='')) r"
    and "azureVaultPart (''azurekms:name='' @ r) = drop (nat (Index r '';vault='') + 7) r"
proof -
  have i: "Index (''azurekms:name='' @ r) '';vault='' = Index r '';vault='' + 14"
    using assms by (simp only: Index_vault_after_prefix) simp
  have n: "nat (Index r '';vault='' + 14) = length ''azurekms:name='' + nat (Index r '';vault='')"
    using assms by simp
  show "azureNamePart (''azurekms:name='' @ r) = take (nat (Index r '';vault='')) r"
    unfolding azureNamePart_def i n by (simp only: add_diff_cancel_left' drop_append) simp
  have l7: "length '';vault='' = 7" by simp
  show "azureVaultPart (''azurekms:name='' @ r) = drop (nat (Index r '';vault='') + 7) r"
    unfolding azureVaultPart_def i n l7 add.assoc
    by (simp only: drop_append) (simp add: add.commute)
qed

lemma validateAzureKeyID_prefixed:
  "validateAzureKeyID (''azurekms:name='' @ r) keyType =
     (if Index r '';vault='' < 0 then Some (AzureVaultParam keyType)
      else if TrimSpace (take (nat (Index r '';vault='')) r) = [] then Some (KeyNameEmpty keyType)
      else if TrimSpace (drop (nat (Index r '';vault='') + 7) r) = []
        then Some (VaultNameEmpty keyType)
      else None)"
proof (cases "Index r '';vault='' < 0")
  case True
  then show ?thesis
    unfolding validateAzureKeyID_def Index_vault_after_prefix Index_name_after_prefix
    by (simp add: Let_def)
next
  case False
  then have nn: "0 \<le> Index r '';vault=''" by simp
  have a: "Index r '';vault='' + 14 \<noteq> - 1" using nn by simp
  show ?thesis
    unfolding validateAzureKeyID_def Index_vault_after_prefix Index_name_after_prefix
    using False a azure_slices [OF nn] by (simp add: Let_def)
qed

lemma validateAzureKeyID_no_panic: "validateAzureKeyID keyID keyType \<noteq> Some Panic"
proof (cases "HasPrefix keyID ''azurekms:name=''")
  case True
  then obtain r where "keyID = ''azurekms:name='' @ r"
    unfolding HasPrefix_iff_append by blast
  then show ?thesis by (simp only: validateAzureKeyID_prefixed) simp
next
  case False
  then show ?thesis by (simp add: validateAzureKeyID_def)
qed

lemma validateAzureKeyID_iff:
  "keyID \<noteq> [] \<Longrightarrow> (validateAzureKeyID keyID keyType = None) = azureKeyGrammarTrimmed keyID"
proof (cases "HasPrefix keyID ''azurekms:name=''")
  case False
  assume "keyID \<noteq> []"
  with False show ?thesis by (simp add: validateAzureKeyID_def azureKeyGrammarTrimmed_def)
next
  case True
  then obtain r where k: "keyID = ''azurekms:name='' @ r"
    unfolding HasPrefix_iff_append by blast
  show ?thesis
  proof (cases "Index r '';vault='' < 0")
    case neg: True
    then have "\<not> Contains keyID '';vault=''"
      unfolding k Contains_def Index_vault_after_prefix by simp
    with neg show ?thesis
      unfolding k validateAzureKeyID_prefixed azureKeyGrammarTrimmed_def by simp
  next
    case False
    then have nn: "0 \<le> Index r '';vault=''" by simp
    have c: "Contains keyID '';vault=''"
      unfolding k Contains_def Index_vault_after_prefix using nn by simp
    have h: "HasPrefix (''azurekms:name='' @ r) ''azurekms:name=''" by simp
    show ?thesis
      using False c h unfolding k validateAzureKeyID_prefixed azureKeyGrammarTrimmed_def
        azure_parts [OF nn] by auto
  qed
qed

lemma validateKeyIDs_None:
  assumes "\<And>keyID keyType. (validate keyID keyType = None) = (keyID = [] \<or> G keyID)"
  shows "(validateKeyIDs validate config = None)
           = ((RootKeyID config = [] \<or> G (RootKeyID config))
              \<and> (IntermediateKeyID config = [] \<or> G (IntermediateKeyID config))
              \<and> (LeafKeyID config = [] \<or> G (LeafKeyID config)))"
  unfolding validateKeyIDs_def by (simp add: assms split: option.split) (metis assms option.distinct(1))

lemma validateAWSKeyID_None:
  "(validateAWSKeyID config keyID keyType = None)
     = (keyID = [] \<or> awsKeyGrammar (option_value (Options config) ''aws-region'') keyID)"
proof (cases "keyID = []")
  case True
  then show ?thesis by (simp add: validateAWSKeyID_def)
next
  case False
  then show ?thesis by (simp add: validateAWSKeyID_iff)
qed

lemma validateGCPKeyID_None:
  "(validateGCPKeyID keyID keyType = None) = (keyID = [] \<or> gcpKeyGrammar keyID)"
proof (cases "keyID = []")
  case True
  then show ?thesis by (simp add: validateGCPKeyID_def)
next
  case False
  then show ?thesis by (simp add: validateGCPKeyID_iff)
qed

lemma validateAzureKeyID_None:
  "(validateAzureKeyID keyID keyType = None) = (keyID = [] \<or> azureKeyGrammarTrimmed keyID)"
proof (cases "keyID = []")
  case True
  then show ?thesis by (simp add: validateAzureKeyID_def)
next
  case False
  then show ?thesis by (simp add: validateAzureKeyID_iff)
qed

lemma validateHashiVaultKeyID_None:
  "(validateHashiVaultKeyID keyID keyType = None) = (keyID = [] \<or> hashiKeyGrammar keyID)"
proof (cases "keyID = []")
  case True
  then show ?thesis by (simp add: validateHashiVaultKeyID_def)
next
  case False
  then show ?thesis by (simp add: validateHashiVaultKeyID_iff)
qed

lemma checkKeyIDsSpecified_None:
  "(checkKeyIDsSpecified config = None) = (RootKeyID config \<noteq> [] \<and> LeafKeyID config \<noteq> [])"
  by (simp add: checkKeyIDsSpecified_def)

lemma stage_None:
  "((case v of Some err \<Rightarrow> Some err | None \<Rightarrow> c) = None) = (v = None \<and> c = None)"
  by (cases v) simp_all

lemma option_value_nonempty: "option_value opts k \<noteq> [] \<Longrightarrow> opts \<noteq> None"
  by (cases opts) simp_all

lemma WriteCertificateToFile_created:
  assumes "Raw c \<noteq> []" and "os_Create ext w path = None"
  shows "WriteCertificateToFile ext (Some c) path w =
           (case write_fault ext (created ext c path w) path of
              None \<Rightarrow>
                (None, (created ext c path w)
                   \<lparr>files := (files w)(path \<mapsto> pem_EncodeToMemory ext ''CERTIFICATE'' (Raw c))\<rparr>)
            | Some (n, err) \<Rightarrow>
                (Some err, (created ext c path w)
                   \<lparr>files := (files w)(path \<mapsto> take n (pem_EncodeToMemory ext ''CERTIFICATE'' (Raw c)))\<rparr>))"
proof (cases "IsCA c")
  case False
  with assms show ?thesis
    by (simp add: WriteCertificateToFile_def specCertType_def statusLine_def created_def Let_def
          split: option.split)
next
  case True
  show ?thesis
  proof (cases "CheckSignatureFrom ext c c")
    case None
    with True assms show ?thesis
      by (simp add: WriteCertificateToFile_def specCertType_def statusLine_def created_def Let_def
            split: option.split)
  next
    case (Some e)
    with True assms show ?thesis
      by (simp add: WriteCertificateToFile_def specCertType_def statusLine_def created_def Let_def
            split: option.split)
  qed
qed

lemma ValidateKMSConfig_None_iff:
  "(ValidateKMSConfig config = None) =
     (recognizedType (Type config) \<and> \<not> missingRequiredOption config
      \<and> RootKeyID config \<noteq> [] \<and> keyGrammarTrimmed config (RootKeyID config)
      \<and> (IntermediateKeyID config = [] \<or> keyGrammarTrimmed config (IntermediateKeyID config))
      \<and> LeafKeyID config \<noteq> [] \<and> keyGrammarTrimmed config (LeafKeyID config))"
proof -
  consider (aws) "Type config = ''awskms''" | (gcp) "Type config = ''gcpkms''"
    | (azure) "Type config = ''azurekms''" | (hashi) "Type config = ''hashivault''"
    | (other) "\<not> recognizedType (Type config)"
    unfolding recognizedType_def by blast
  then show ?thesis
  proof cases
    case aws
    have "(ValidateKMSConfig config = None) =
            (option_value (Options config) ''aws-region'' \<noteq> []
             \<and> validateKeyIDs (validateAWSKeyID config) config = None
             \<and> checkKeyIDsSpecified config = None)"
      using aws option_value_nonempty [of "Options config" "''aws-region''"]
      by (auto simp: ValidateKMSConfig_def stage_None)
    then show ?thesis
      using aws
      unfolding validateKeyIDs_None [of "validateAWSKeyID config", OF validateAWSKeyID_None]
        checkKeyIDsSpecified_None
      by (auto simp: recognizedType_def missingRequiredOption_def keyGrammarTrimmed_def)
  next
    case gcp
    have "(ValidateKMSConfig config = None) =
            (option_value (Options config) ''gcp-credentials-file'' \<noteq> []
             \<and> validateKeyIDs validateGCPKeyID config = None
             \<and> checkKeyIDsSpecified config = None)"
      using gcp option_value_nonempty [of "Options config" "''gcp-credentials-file''"]
      by (auto simp: ValidateKMSConfig_def stage_None)
    then show ?thesis
      using gcp
      unfolding validateKeyIDs_None [of validateGCPKeyID, OF validateGCPKeyID_None]
        checkKeyIDsSpecified_None
      by (auto simp: recognizedType_def missingRequiredOption_def keyGrammarTrimmed_def)
  next
    case azure
    have "(ValidateKMSConfig config = None) =
            (option_value (Options config) ''azure-tenant-id'' \<noteq> []
             \<and> validateKeyIDs validateAzureKeyID config = None
             \<and> checkKeyIDsSpecified config = None)"
      using azure option_value_nonempty [of "Options config" "''azure-tenant-id''"]
      by (auto simp: ValidateKMSConfig_def stage_None)
    then show ?thesis
      using azure
      unfolding validateKeyIDs_None [of validateAzureKeyID, OF validateAzureKeyID_None]
        checkKeyIDsSpecified_None
      by (auto simp: recognizedType_def missingRequiredOption_def keyGrammarTrimmed_def)
  next
    case hashi
    have "(ValidateKMSConfig config = None) =
            (option_value (Options config) ''vault-token'' \<noteq> []
             \<and> option_value (Options config) ''vault-address'' \<noteq> []
             \<and> validateKeyIDs validateHashiVaultKeyID config = None
             \<and> checkKeyIDsSpecified config = None)"
      using hashi option_value_nonempty [of "Options config" "''vault-token''"]
      by (auto simp: ValidateKMSConfig_def stage_None)
    then show ?thesis
      using hashi
      unfolding validateKeyIDs_None [of validateHashiVaultKeyID, OF validateHashiVaultKeyID_None]
        checkKeyIDsSpecified_None
      by (auto simp: recognizedType_def missingRequiredOption_def keyGrammarTrimmed_def)
  next
    case other
    then have "ValidateKMSConfig config \<noteq> None"
      by (auto simp: ValidateKMSConfig_def recognizedType_def)
    with other show ?thesis by simp
  qed
qed

section \<open>Properties of InitKMS\<close>

lemma HasPrefix_append_fresh:
  "c \<notin> set q \<Longrightarrow> HasPrefix (a @ c # b) q \<Longrightarrow> HasPrefix a q"
proof (induction a arbitrary: q)
  case Nil
  then show ?case by (cases q) auto
next
  case (Cons x xs)
  then show ?case by (cases q) auto
qed

lemma Index_append_first:
  assumes "c \<notin> set q" and "Index n (c # q) < 0"
  shows "Index (n @ (c # q) @ v) (c # q) = int (length n)"
  using assms(2)
proof (induction n)
  case Nil
  show ?case by (simp add: HasPrefix_def)
next
  case (Cons x xs)
  then have np: "\<not> HasPrefix (x # xs) (c # q)" and neg: "Index xs (c # q) < 0"
    by (auto simp: Let_def split: if_splits)
  have "\<not> HasPrefix (x # xs @ (c # q) @ v) (c # q)"
  proof
    assume "HasPrefix (x # xs @ (c # q) @ v) (c # q)"
    then have "x = c" and "HasPrefix (xs @ c # (q @ v)) q" by simp_all
    with assms(1) have "HasPrefix xs q" by (blast intro: HasPrefix_append_fresh)
    with \<open>x = c\<close> np show False by simp
  qed
  with Cons.IH [OF neg] show ?case by (simp add: Let_def)
qed

lemma azureKeyURI_prefixed:
  "azureKeyURI (''azurekms:name='' @ r) =
     (if Index r '';vault='' < 0 then Some (''azurekms:name='' @ r)
      else Some (''azurekms://'' @ TrimSpace (drop (nat (Index r '';vault='') + 7) r)
                 @ ''.vault.azure.net/'' @ TrimSpace (take (nat (Index r '';vault='')) r)))"
proof (cases "Index r '';vault='' < 0")
  case True
  have h: "HasPrefix (''azurekms:name='' @ r) ''azurekms:name=''" by simp
  from True show ?thesis
    unfolding azureKeyURI_def Index_vault_after_prefix Index_name_after_prefix
    using h by (simp add: Let_def)
next
  case False
  then have nn: "0 \<le> Index r '';vault=''" by simp
  have a: "Index r '';vault='' + 14 \<noteq> - 1" using nn by simp
  have h: "HasPrefix (''azurekms:name='' @ r) ''azurekms:name=''" by simp
  show ?thesis
    unfolding azureKeyURI_def Index_vault_after_prefix Index_name_after_prefix
    using False a h azure_slices [OF nn] by (simp add: Let_def)
qed

lemma azureKeyURI_short_form:
  assumes "\<not> Contains n '';vault=''"
  shows "azureKeyURI (''azurekms:name='' @ n @ '';vault='' @ v) =
           Some (''azurekms://'' @ TrimSpace v @ ''.vault.azure.net/'' @ TrimSpace n)"
proof -
  from assms have neg: "Index n '';vault='' < 0" by (simp add: Contains_def)
  have fresh: "CHR '';'' \<notin> set ''vault=''" by simp
  have i: "Index (n @ '';vault='' @ v) '';vault='' = int (length n)"
    using Index_append_first [OF fresh, of n v] neg by simp
  have d: "drop (length n + 7) (n @ '';vault='' @ v) = v" by simp
  have t: "take (length n) (n @ '';vault='' @ v) = n" by simp
  show ?thesis
    unfolding azureKeyURI_prefixed i using d t by simp
qed

lemma azureKeyURI_other:
  assumes "\<not> (HasPrefix k ''azurekms:name='' \<and> Contains k '';vault='')"
  shows "azureKeyURI k = Some k"
proof (cases "HasPrefix k ''azurekms:name=''")
  case False
  then show ?thesis by (simp add: azureKeyURI_def)
next
  case True
  then obtain r where k: "k = ''azurekms:name='' @ r"
    unfolding HasPrefix_iff_append by blast
  from True assms have "Index k '';vault='' < 0" by (simp add: Contains_def)
  then have "Index r '';vault='' < 0"
    unfolding k Index_vault_after_prefix by (simp split: if_splits)
  then show ?thesis unfolding k azureKeyURI_prefixed by simp
qed

lemma kms_calls_Setenv [simp]: "kms_calls (Setenv k v w) = kms_calls w"
  by (simp add: Setenv_def)

lemma kms_calls_getSigner [simp]:
  "kms_calls (snd (getSigner ext failure ref w)) = kms_calls w @ [ref]"
  by (simp add: getSigner_def call_kms_Get_def checkSigner_def split: prod.split option.split)

lemma InitKMS_azure_calls:
  assumes "Type config = ''azurekms''" and "ValidateKMSConfig config = None"
    and "azureKeyURI (RootKeyID config) = Some uri"
  shows "kms_calls (snd (InitKMS ext config w)) = kms_calls w @ [uri]"
  using assms by (simp add: InitKMS_def Let_def)

lemma azure_valid_root:
  assumes "Type config = ''azurekms''" and "ValidateKMSConfig config = None"
  shows "azureKeyGrammarTrimmed (RootKeyID config)"
  using assms ValidateKMSConfig_None_iff [of config]
  by (simp add: keyGrammarTrimmed_def)

lemma first_separator:
  assumes "0 \<le> Index r sep"
  shows "r = take (nat (Index r sep)) r @ sep @ drop (nat (Index r sep) + length sep) r"
    and "sep \<noteq> [] \<Longrightarrow> \<not> Contains (take (nat (Index r sep)) r) sep"
proof -
  from Index_found [OF assms] obtain t where t: "drop (nat (Index r sep)) r = sep @ t"
    unfolding HasPrefix_iff_append by blast
  then have "drop (length sep) (drop (nat (Index r sep)) r) = t" by simp
  then have "drop (nat (Index r sep) + length sep) r = t" by (simp add: add.commute)
  with t show "r = take (nat (Index r sep)) r @ sep @ drop (nat (Index r sep) + length sep) r"
    by (metis append_take_drop_id)
next
  assume ne: "sep \<noteq> []"
  show "\<not> Contains (take (nat (Index r sep)) r) sep"
  proof
    assume "Contains (take (nat (Index r sep)) r) sep"
    then obtain a b where ab: "take (nat (Index r sep)) r = a @ sep @ b"
      unfolding Contains_iff by blast
    then have "length a + length sep \<le> nat (Index r sep)"
      by (metis length_append length_take min.cobounded2 add.assoc le_add1 le_trans)
    with ne have lt: "length a < nat (Index r sep)"
      by (cases sep) auto
    have "r = a @ sep @ b @ drop (nat (Index r sep)) r"
      using ab by (metis append_take_drop_id append.assoc)
    then have "HasPrefix (drop (length a) r) sep"
      unfolding HasPrefix_iff_append by (metis append_eq_conv_conj)
    with Index_first [OF assms lt] show False by simp
  qed
qed

section \<open>No panic, and the order of the errors\<close>

text \<open>
  The slice expressions never panic: neither the validation nor \<open>InitKMS\<close> has the
  outcome \<open>Panic\<close>. The errors of the key identifier checks are never the errors
  that \<open>RootKeyID\<close> or \<open>LeafKeyID\<close> must be specified, and
  \<open>ValidateKMSConfig\<close> is: the error of the type or of the option, else the first
  error of the provider's key identifier checks, else the check that the two key
  identifiers are there.
\<close>

lemma azureKeyURI_no_panic: "azureKeyURI k \<noteq> None"
proof (cases "HasPrefix k ''azurekms:name=''")
  case False
  then show ?thesis by (simp add: azureKeyURI_def)
next
  case True
  then obtain r where "k = ''azurekms:name='' @ r"
    unfolding HasPrefix_iff_append by blast
  then show ?thesis by (simp only: azureKeyURI_prefixed) simp
qed

lemma validateKeyIDs_errors:
  assumes "\<And>keyID keyType e. validate keyID keyType = Some e \<Longrightarrow> P e"
    and "validateKeyIDs validate config = Some err"
  shows "P err"
  using assms(2) assms(1) [of "RootKeyID config" "''RootKeyID''"]
    assms(1) [of "IntermediateKeyID config" "''IntermediateKeyID''"]
    assms(1) [of "LeafKeyID config" "''LeafKeyID''"]
  by (auto simp: validateKeyIDs_def split: option.splits)

lemma validateAWSKeyID_errors:
  "validateAWSKeyID config keyID keyType = Some e \<Longrightarrow>
   e \<noteq> Panic \<and> e \<noteq> RootKeyIDRequired \<and> e \<noteq> LeafKeyIDRequired"
  by (auto simp: validateAWSKeyID_def Let_def split: if_splits)

lemma checkComponents_errors:
  "checkComponents keyID keyType reqs = Some e \<Longrightarrow>
   e \<noteq> Panic \<and> e \<noteq> RootKeyIDRequired \<and> e \<noteq> LeafKeyIDRequired"
  by (induction reqs) (auto split: if_splits)

lemma validateGCPKeyID_errors:
  "validateGCPKeyID keyID keyType = Some e \<Longrightarrow>
   e \<noteq> Panic \<and> e \<noteq> RootKeyIDRequired \<and> e \<noteq> LeafKeyIDRequired"
  by (auto simp: validateGCPKeyID_def split: if_splits dest: checkComponents_errors)

lemma validateAzureKeyID_errors:
  assumes "validateAzureKeyID keyID keyType = Some e"
  shows "e \<noteq> Panic \<and> e \<noteq> RootKeyIDRequired \<and> e \<noteq> LeafKeyIDRequired"
proof (cases "HasPrefix keyID ''azurekms:name=''")
  case False
  with assms show ?thesis by (auto simp: validateAzureKeyID_def split: if_splits)
next
  case True
  then obtain r where "keyID = ''azurekms:name='' @ r"
    unfolding HasPrefix_iff_append by blast
  with assms show ?thesis
    by (simp only: validateAzureKeyID_prefixed) (auto split: if_splits)
qed

lemma validateHashiVaultKeyID_errors:
  "validateHashiVaultKeyID keyID keyType = Some e \<Longrightarrow>
   e \<noteq> Panic \<and> e \<noteq> RootKeyIDRequired \<and> e \<noteq> LeafKeyIDRequired"
  by (auto simp: validateHashiVaultKeyID_def Let_def split: if_splits)

lemma ValidateKMSConfig_cases:
  "ValidateKMSConfig config =
     (if \<not> recognizedType (Type config) \<or> missingRequiredOption config
        then Some (typeOrOptionError config)
      else (case validateKeyIDs
                  (if Type config = ''awskms'' then validateAWSKeyID config
                   else if Type config = ''gcpkms'' then validateGCPKeyID
                   else if Type config = ''azurekms'' then validateAzureKeyID
                   else validateHashiVaultKeyID) config of
              Some err \<Rightarrow> Some err
            | None \<Rightarrow> checkKeyIDsSpecified config))"
proof -
  consider (aws) "Type config = ''awskms''" | (gcp) "Type config = ''gcpkms''"
    | (azure) "Type config = ''azurekms''" | (hashi) "Type config = ''hashivault''"
    | (other) "\<not> recognizedType (Type config)"
    unfolding recognizedType_def by blast
  then show ?thesis
  proof cases
    case aws
    then show ?thesis
      using option_value_nonempty [of "Options config" "''aws-region''"]
      by (auto simp: ValidateKMSConfig_def recognizedType_def missingRequiredOption_def
            typeOrOptionError_def)
  next
    case gcp
    then show ?thesis
      using option_value_nonempty [of "Options config" "''gcp-credentials-file''"]
      by (auto simp: ValidateKMSConfig_def recognizedType_def missingRequiredOption_def
            typeOrOptionError_def)
  next
    case azure
    then show ?thesis
      using option_value_nonempty [of "Options config" "''azure-tenant-id''"]
      by (auto simp: ValidateKMSConfig_def recognizedType_def missingRequiredOption_def
            typeOrOptionError_def)
  next
    case hashi
    then show ?thesis
      using option_value_nonempty [of "Options config" "''vault-token''"]
      by (auto simp: ValidateKMSConfig_def recognizedType_def missingRequiredOption_def
            typeOrOptionError_def)
  next
    case other
    then show ?thesis
      by (auto simp: ValidateKMSConfig_def recognizedType_def typeOrOptionError_def)
  qed
qed

lemma typeOrOptionError_kind:
  "typeOrOptionError config \<noteq> Panic \<and> typeOrOptionError config \<noteq> RootKeyIDRequired
   \<and> typeOrOptionError config \<noteq> LeafKeyIDRequired"
  by (simp add: typeOrOptionError_def)

lemma provider_validator_errors:
  assumes "validateKeyIDs
             (if Type config = ''awskms'' then validateAWSKeyID config
              else if Type config = ''gcpkms'' then validateGCPKeyID
              else if Type config = ''azurekms'' then validateAzureKeyID
              else validateHashiVaultKeyID) config = Some e"
  shows "e \<noteq> Panic \<and> e \<noteq> RootKeyIDRequired \<and> e \<noteq> LeafKeyIDRequired"
proof -
  let ?P = "\<lambda>e. e \<noteq> Panic \<and> e \<noteq> RootKeyIDRequired \<and> e \<noteq> LeafKeyIDRequired"
  have aws: "?P e" if "validateKeyIDs (validateAWSKeyID config) config = Some e"
    by (rule validateKeyIDs_errors [where P = ?P, OF validateAWSKeyID_errors that])
  have gcp: "?P e" if "validateKeyIDs validateGCPKeyID config = Some e"
    by (rule validateKeyIDs_errors [where P = ?P, OF validateGCPKeyID_errors that])
  have azure: "?P e" if "validateKeyIDs validateAzureKeyID config = Some e"
    by (rule validateKeyIDs_errors [where P = ?P, OF validateAzureKeyID_errors that])
  have hashi: "?P e" if "validateKeyIDs validateHashiVaultKeyID config = Some e"
    by (rule validateKeyIDs_errors [where P = ?P, OF validateHashiVaultKeyID_errors that])
  from assms aws gcp azure hashi show ?thesis
    by (simp split: if_splits)
qed

lemma ValidateKMSConfig_no_panic: "ValidateKMSConfig config \<noteq> Some Panic"
  unfolding ValidateKMSConfig_cases
  using typeOrOptionError_kind [of config] provider_validator_errors [of config]
  by (auto simp: checkKeyIDsSpecified_def split: option.split)

lemma InitKMS_no_panic: "fst (InitKMS ext config w) \<noteq> Inl Panic"
proof (cases "ValidateKMSConfig config")
  case (Some err)
  then show ?thesis by (simp add: InitKMS_def)
next
  case None
  have g: "fst (getSigner ext failure ref w') \<noteq> Inl Panic" for failure ref w'
    by (simp add: getSigner_def call_kms_Get_def checkSigner_def split: prod.split option.split)
  obtain u where u: "azureKeyURI (RootKeyID config) = Some u"
    using azureKeyURI_no_panic [of "RootKeyID config"] by blast
  show ?thesis
    using None u g by (simp add: InitKMS_def Let_def)
qed

lemma keyid_errors_after_provider_checks:
  assumes "ValidateKMSConfig config = Some RootKeyIDRequired
           \<or> ValidateKMSConfig config = Some LeafKeyIDRequired"
  shows "recognizedType (Type config) \<and> \<not> missingRequiredOption config
         \<and> (RootKeyID config = [] \<or> keyGrammarTrimmed config (RootKeyID config))
         \<and> (IntermediateKeyID config = [] \<or> keyGrammarTrimmed config (IntermediateKeyID config))
         \<and> (LeafKeyID config = [] \<or> keyGrammarTrimmed config (LeafKeyID config))"
proof -
  let ?v = "validateKeyIDs
             (if Type config = ''awskms'' then validateAWSKeyID config
              else if Type config = ''gcpkms'' then validateGCPKeyID
              else if Type config = ''azurekms'' then validateAzureKeyID
              else validateHashiVaultKeyID) config"
  have ok: "recognizedType (Type config) \<and> \<not> missingRequiredOption config"
    using assms typeOrOptionError_kind [of config]
    by (auto simp: ValidateKMSConfig_cases split: if_splits)
  have v: "?v = None"
    using assms ok provider_validator_errors [of config]
    by (cases ?v) (auto simp: ValidateKMSConfig_cases)
  from ok v show ?thesis
    unfolding recognizedType_def keyGrammarTrimmed_def
    by (auto simp: validateKeyIDs_None [of "validateAWSKeyID config", OF validateAWSKeyID_None]
          validateKeyIDs_None [of validateGCPKeyID, OF validateGCPKeyID_None]
          validateKeyIDs_None [of validateAzureKeyID, OF validateAzureKeyID_None]
          validateKeyIDs_None [of validateHashiVaultKeyID, OF validateHashiVaultKeyID_None]
          split: if_splits)
qed

section \<open>Properties of the stages of CreateCertificates\<close>

lemma stageConfig_update: "config\<lparr>RootKeyID := keyID\<rparr> = stageConfig config keyID"
  by (simp add: stageConfig_def)

lemma WriteCertificateToFile_frame [simp]:
  "sign_calls (snd (WriteCertificateToFile ext cert path w)) = sign_calls w"
  "initkms_calls (snd (WriteCertificateToFile ext cert path w)) = initkms_calls w"
  "kms_calls (snd (WriteCertificateToFile ext cert path w)) = kms_calls w"
  by (simp_all add: WriteCertificateToFile_def Let_def split: option.split prod.split)

lemma WriteCertificateToFile_frameD:
  assumes "WriteCertificateToFile ext cert path w = (r, w')"
  shows "sign_calls w' = sign_calls w" and "initkms_calls w' = initkms_calls w"
    and "kms_calls w' = kms_calls w"
  using WriteCertificateToFile_frame [of ext cert path w] assms by simp_all

lemma WriteCertificateToFile_None:
  assumes "WriteCertificateToFile ext cert path w = (None, w')"
  shows "\<exists>c. cert = Some c
           \<and> files w' path = Some (pem_EncodeToMemory ext ''CERTIFICATE'' (Raw c))"
  using assms
  by (auto simp: WriteCertificateToFile_def Let_def split: option.splits prod.splits if_splits)

lemma signAndWrite_Inr:
  assumes "signAndWrite ext stage tmpl algSigner parent pub signKey certPath w = (Inr cert, w')"
  shows "\<exists>alg. ToSignatureAlgorithm ext algSigner = Inr alg
           \<and> x509util_CreateCertificate ext (tmpl\<lparr>SignatureAlgorithm := alg\<rparr>)
                 (parent (tmpl\<lparr>SignatureAlgorithm := alg\<rparr>)) pub signKey = Inr cert
           \<and> sign_calls w' = sign_calls w @
                 [Call_ToSignatureAlgorithm algSigner,
                  Call_CreateCertificate (tmpl\<lparr>SignatureAlgorithm := alg\<rparr>)
                    (parent (tmpl\<lparr>SignatureAlgorithm := alg\<rparr>)) pub signKey]
           \<and> (\<exists>c. cert = Some c
                 \<and> files w' certPath = Some (pem_EncodeToMemory ext ''CERTIFICATE'' (Raw c)))"
proof -
  obtain alg where a: "ToSignatureAlgorithm ext algSigner = Inr alg"
    using assms
    by (cases "ToSignatureAlgorithm ext algSigner")
       (auto simp: signAndWrite_def call_ToSignatureAlgorithm_def)
  let ?t = "tmpl\<lparr>SignatureAlgorithm := alg\<rparr>"
  let ?w1 = "w\<lparr>sign_calls := sign_calls w @ [Call_ToSignatureAlgorithm algSigner]\<rparr>"
  let ?w2 = "?w1\<lparr>sign_calls := sign_calls ?w1 @ [Call_CreateCertificate ?t (parent ?t) pub signKey]\<rparr>"
  have c: "x509util_CreateCertificate ext ?t (parent ?t) pub signKey = Inr cert"
    and wr: "WriteCertificateToFile ext cert certPath ?w2 = (None, w')"
    using assms a
    by (auto simp: signAndWrite_def call_ToSignatureAlgorithm_def call_CreateCertificate_def
          Let_def split: sum.splits prod.splits option.splits)
  have "sign_calls w' = sign_calls ?w2"
    by (rule WriteCertificateToFile_frameD(1) [OF wr])
  with a c WriteCertificateToFile_None [OF wr] show ?thesis by auto
qed

lemma signAndWrite_frame [simp]:
  "initkms_calls (snd (signAndWrite ext stage tmpl algSigner parent pub signKey certPath w))
     = initkms_calls w"
  by (auto simp: signAndWrite_def call_ToSignatureAlgorithm_def call_CreateCertificate_def Let_def
        split: sum.split prod.split option.split dest: WriteCertificateToFile_frameD(2))

lemma rootStage_Inr:
  assumes "rootStage ext sv config rootTemplatePath rootCertPath rootLifetime w
             = (Inr (rootCert, rootSigner), w1)"
  shows "CryptoSigner sv = Some (Inr rootSigner)
         \<and> (\<exists>rootPubKey rootTmpl.
               PublicKey sv = Inr rootPubKey
               \<and> signAndWrite ext ''root'' rootTmpl rootSigner Some rootPubKey rootSigner
                     rootCertPath w = (Inr rootCert, w1))"
  using assms
  by (auto simp: rootStage_def Let_def split: sum.splits option.splits prod.splits)

lemma intermediateStage_Inr:
  assumes "intermediateStage ext initKMS config rootCert rootSigner intermediateKeyID
             intermediateTemplatePath intermediateCertPath intermediateLifetime w
             = (Inr (signingCert, signingKey), w')"
  shows "\<exists>intermediateSV w1 intermediatePubKey intermediateTmpl.
           initKMS (config\<lparr>RootKeyID := intermediateKeyID\<rparr>) w = (Inr intermediateSV, w1)
           \<and> PublicKey intermediateSV = Inr intermediatePubKey
           \<and> CryptoSigner intermediateSV = Some (Inr signingKey)
           \<and> signAndWrite ext ''intermediate'' intermediateTmpl signingKey (\<lambda>_. rootCert)
                 intermediatePubKey rootSigner intermediateCertPath w1 = (Inr signingCert, w')"
  using assms
  by (auto simp: intermediateStage_def Let_def split: sum.splits option.splits prod.splits)

lemma leafStage_None:
  assumes "leafStage ext initKMS config signingCert signingKey leafTemplatePath leafCertPath
             leafLifetime w = (None, w')"
  shows "\<exists>leafSV w1 leafPubKey leafTmpl leafCert.
           initKMS (config\<lparr>RootKeyID := LeafKeyID config\<rparr>) w = (Inr leafSV, w1)
           \<and> PublicKey leafSV = Inr leafPubKey
           \<and> signAndWrite ext ''leaf'' leafTmpl signingKey (\<lambda>_. signingCert)
                 leafPubKey signingKey leafCertPath w1 = (Inr leafCert, w')"
  using assms
  by (auto simp: leafStage_def Let_def split: sum.splits option.splits prod.splits)

lemma signAndWrite_frameD:
  assumes "signAndWrite ext stage tmpl algSigner parent pub signKey certPath w = (r, w')"
  shows "initkms_calls w' = initkms_calls w"
  using signAndWrite_frame [of ext stage tmpl algSigner parent pub signKey certPath w] assms
  by simp

lemma rootStage_frame:
  "initkms_calls (snd (rootStage ext sv config rootTemplatePath rootCertPath rootLifetime w))
     = initkms_calls w"
  by (auto simp: rootStage_def Let_def split: sum.split option.split prod.split
        dest: signAndWrite_frameD)

lemma initkms_calls_Setenv [simp]: "initkms_calls (Setenv k v w) = initkms_calls w"
  by (simp add: Setenv_def)

lemma initkms_calls_getSigner [simp]:
  "initkms_calls (snd (getSigner ext failure ref w)) = initkms_calls w"
  by (simp add: getSigner_def call_kms_Get_def checkSigner_def split: prod.split option.split)

lemma InitKMS_frame: "initkms_calls (snd (InitKMS ext config w)) = initkms_calls w"
  by (simp add: InitKMS_def Let_def split: option.split)

lemma recording_InitKMS_frameD:
  assumes "recording (InitKMS ext) config w = (r, w')"
  shows "initkms_calls w' = initkms_calls w @ [config]"
proof -
  from assms have "snd (InitKMS ext config (w\<lparr>initkms_calls := initkms_calls w @ [config]\<rparr>)) = w'"
    by (simp add: recording_def)
  then have "initkms_calls w' = initkms_calls (w\<lparr>initkms_calls := initkms_calls w @ [config]\<rparr>)"
    using InitKMS_frame by blast
  then show ?thesis by simp
qed

lemma intermediateStage_recording:
  "initkms_calls (snd (intermediateStage ext (recording (InitKMS ext)) config rootCert rootSigner
       intermediateKeyID intermediateTemplatePath intermediateCertPath intermediateLifetime w))
     = initkms_calls w @ [stageConfig config intermediateKeyID]"
  by (auto simp: intermediateStage_def Let_def stageConfig_update
        split: sum.split option.split prod.split
        dest!: signAndWrite_frameD recording_InitKMS_frameD)

lemma leafStage_recording:
  "initkms_calls (snd (leafStage ext (recording (InitKMS ext)) config signingCert signingKey
       leafTemplatePath leafCertPath leafLifetime w))
     = initkms_calls w @ [stageConfig config (LeafKeyID config)]"
  by (auto simp: leafStage_def Let_def stageConfig_update
        split: sum.split option.split prod.split
        dest!: signAndWrite_frameD recording_InitKMS_frameD)

lemma CreateCertificates_None:
  assumes "CreateCertificates ext initKMS sv config rootTemplatePath leafTemplatePath
             rootCertPath leafCertPath intermediateKeyID intermediateTemplatePath
             intermediateCertPath rootLifetime intermediateLifetime leafLifetime w = (None, w')"
  shows "\<exists>signingCert signingKey w2.
           signingStages ext initKMS sv config rootTemplatePath rootCertPath
             intermediateKeyID intermediateTemplatePath intermediateCertPath
             rootLifetime intermediateLifetime w = (Inr (signingCert, signingKey), w2)
           \<and> leafStage ext initKMS config signingCert signingKey leafTemplatePath leafCertPath
                 leafLifetime w2 = (None, w')"
  using assms
  by (auto simp: CreateCertificates_def split: sum.splits prod.splits)

lemma signingStages_Inr:
  assumes "signingStages ext initKMS sv config rootTemplatePath rootCertPath
             intermediateKeyID intermediateTemplatePath intermediateCertPath
             rootLifetime intermediateLifetime w = (Inr (signingCert, signingKey), w2)"
  shows "\<exists>rootCert rootSigner w1.
           rootStage ext sv config rootTemplatePath rootCertPath rootLifetime w
             = (Inr (rootCert, rootSigner), w1)
           \<and> (if intermediateKeyID \<noteq> [] then
                 intermediateStage ext initKMS config rootCert rootSigner intermediateKeyID
                   intermediateTemplatePath intermediateCertPath intermediateLifetime w1
                   = (Inr (signingCert, signingKey), w2)
               else signingCert = rootCert \<and> signingKey = rootSigner \<and> w2 = w1)"
  using assms
  by (auto simp: signingStages_def split: sum.splits prod.splits if_splits)

lemma IntermediateKeyID_RootKeyID_update:
  "config\<lparr>IntermediateKeyID := x, RootKeyID := k\<rparr> = config\<lparr>RootKeyID := k, IntermediateKeyID := x\<rparr>"
  by (cases config) simp


lemma rootStage_IntermediateKeyID:
  "rootStage ext sv (config\<lparr>IntermediateKeyID := x\<rparr>) rootTemplatePath rootCertPath rootLifetime w
     = rootStage ext sv config rootTemplatePath rootCertPath rootLifetime w"
  by (simp add: rootStage_def IntermediateKeyID_RootKeyID_update
        cong: sum.case_cong option.case_cong prod.case_cong)

lemma intermediateStage_IntermediateKeyID:
  "intermediateStage ext initKMS (config\<lparr>IntermediateKeyID := x\<rparr>) rootCert rootSigner
       intermediateKeyID intermediateTemplatePath intermediateCertPath intermediateLifetime w
     = intermediateStage ext (\<lambda>c. initKMS (c\<lparr>IntermediateKeyID := x\<rparr>)) config rootCert rootSigner
         intermediateKeyID intermediateTemplatePath intermediateCertPath intermediateLifetime w"
  by (simp add: intermediateStage_def IntermediateKeyID_RootKeyID_update
        cong: sum.case_cong option.case_cong prod.case_cong)

lemma leafStage_IntermediateKeyID:
  "leafStage ext initKMS (config\<lparr>IntermediateKeyID := x\<rparr>) signingCert signingKey
       leafTemplatePath leafCertPath leafLifetime w
     = leafStage ext (\<lambda>c. initKMS (c\<lparr>IntermediateKeyID := x\<rparr>)) config signingCert signingKey
         leafTemplatePath leafCertPath leafLifetime w"
  by (simp add: leafStage_def IntermediateKeyID_RootKeyID_update
        cong: sum.case_cong option.case_cong prod.case_cong)

lemma CreateCertificates_IntermediateKeyID:
  "CreateCertificates ext initKMS sv (config\<lparr>IntermediateKeyID := x\<rparr>) rootTemplatePath
       leafTemplatePath rootCertPath leafCertPath intermediateKeyID intermediateTemplatePath
       intermediateCertPath rootLifetime intermediateLifetime leafLifetime w
     = CreateCertificates ext (\<lambda>c. initKMS (c\<lparr>IntermediateKeyID := x\<rparr>)) sv config rootTemplatePath
         leafTemplatePath rootCertPath leafCertPath intermediateKeyID intermediateTemplatePath
         intermediateCertPath rootLifetime intermediateLifetime leafLifetime w"
  unfolding CreateCertificates_def signingStages_def
    rootStage_IntermediateKeyID intermediateStage_IntermediateKeyID leafStage_IntermediateKeyID
  by (rule refl)

lemma CreateCertificates_recorded:
  fixes ext sv config rootTemplatePath leafTemplatePath rootCertPath leafCertPath
    intermediateKeyID intermediateTemplatePath intermediateCertPath
    rootLifetime intermediateLifetime leafLifetime w
  defines "run \<equiv> CreateCertificates ext (recording (InitKMS ext)) sv config rootTemplatePath
             leafTemplatePath rootCertPath leafCertPath intermediateKeyID intermediateTemplatePath
             intermediateCertPath rootLifetime intermediateLifetime leafLifetime w"
  shows "\<exists>k. initkms_calls (snd run)
               = initkms_calls w @ take k (expectedInitKMSConfigs config intermediateKeyID)"
    and "fst run = None \<Longrightarrow>
           initkms_calls (snd run)
             = initkms_calls w @ expectedInitKMSConfigs config intermediateKeyID"
proof -
  let ?E = "expectedInitKMSConfigs config intermediateKeyID"
  obtain r1 w1 where root:
    "rootStage ext sv config rootTemplatePath rootCertPath rootLifetime w = (r1, w1)"
    by (cases "rootStage ext sv config rootTemplatePath rootCertPath rootLifetime w")
  have rf: "initkms_calls w1 = initkms_calls w"
    using rootStage_frame [of ext sv config rootTemplatePath rootCertPath rootLifetime w] root
    by simp
  have "(\<exists>k. initkms_calls (snd run) = initkms_calls w @ take k ?E)
        \<and> (fst run = None \<longrightarrow> initkms_calls (snd run) = initkms_calls w @ ?E)"
  proof (cases r1)
    case (Inl err)
    then have "run = (Some err, w1)"
      by (simp add: run_def CreateCertificates_def signingStages_def root)
    with rf have "initkms_calls (snd run) = initkms_calls w @ take 0 ?E" and "fst run \<noteq> None"
      by simp_all
    then show ?thesis by blast
  next
    case (Inr p)
    obtain rootCert rootSigner where p: "p = (rootCert, rootSigner)" by (cases p)
    show ?thesis
    proof (cases "intermediateKeyID = []")
      case True
      then have "run = leafStage ext (recording (InitKMS ext)) config rootCert rootSigner
                         leafTemplatePath leafCertPath leafLifetime w1"
        by (simp add: run_def CreateCertificates_def signingStages_def root Inr p)
      then have "initkms_calls (snd run) = initkms_calls w1 @ [stageConfig config (LeafKeyID config)]"
        by (simp add: leafStage_recording)
      with rf True have e: "initkms_calls (snd run) = initkms_calls w @ ?E"
        by (simp add: expectedInitKMSConfigs_def)
      then have "initkms_calls (snd run) = initkms_calls w @ take (length ?E) ?E" by simp
      with e show ?thesis by blast
    next
      case False
      obtain r2 w2 where im:
        "intermediateStage ext (recording (InitKMS ext)) config rootCert rootSigner
           intermediateKeyID intermediateTemplatePath intermediateCertPath
           intermediateLifetime w1 = (r2, w2)"
        by (cases "intermediateStage ext (recording (InitKMS ext)) config rootCert rootSigner
           intermediateKeyID intermediateTemplatePath intermediateCertPath
           intermediateLifetime w1")
      have imf: "initkms_calls w2 = initkms_calls w @ [stageConfig config intermediateKeyID]"
        using intermediateStage_recording [of ext config rootCert rootSigner intermediateKeyID
            intermediateTemplatePath intermediateCertPath intermediateLifetime w1] im rf
        by simp
      show ?thesis
      proof (cases r2)
        case (Inl err)
        then have "run = (Some err, w2)"
          using False
          by (simp add: run_def CreateCertificates_def signingStages_def root \<open>r1 = Inr p\<close> p im)
        with imf False have "initkms_calls (snd run) = initkms_calls w @ take 1 ?E"
          and "fst run \<noteq> None"
          by (simp_all add: expectedInitKMSConfigs_def)
        then show ?thesis by blast
      next
        case (Inr q)
        obtain signingCert signingKey where q: "q = (signingCert, signingKey)" by (cases q)
        have "run = leafStage ext (recording (InitKMS ext)) config signingCert signingKey
                         leafTemplatePath leafCertPath leafLifetime w2"
          using False
          by (simp add: run_def CreateCertificates_def signingStages_def root \<open>r1 = Inr p\<close> p im
                Inr q)
        then have "initkms_calls (snd run)
                     = initkms_calls w2 @ [stageConfig config (LeafKeyID config)]"
          by (simp add: leafStage_recording)
        with imf False have e: "initkms_calls (snd run) = initkms_calls w @ ?E"
          by (simp add: expectedInitKMSConfigs_def)
        then have "initkms_calls (snd run) = initkms_calls w @ take (length ?E) ?E" by simp
        with e show ?thesis by blast
      qed
    qed
  qed
  then show "\<exists>k. initkms_calls (snd run) = initkms_calls w @ take k ?E"
    and "fst run = None \<Longrightarrow> initkms_calls (snd run) = initkms_calls w @ ?E"
    by blast+
qed

lemma leafStage_withLeafSigner:
  "leafStage ext (withLeafSigner h initKMS) config signingCert signingKey
       leafTemplatePath leafCertPath leafLifetime w
     = leafStage ext initKMS config signingCert signingKey
         leafTemplatePath leafCertPath leafLifetime w"
proof -
  obtain r w1 where i: "initKMS (config\<lparr>RootKeyID := LeafKeyID config\<rparr>) w = (r, w1)"
    by (cases "initKMS (config\<lparr>RootKeyID := LeafKeyID config\<rparr>) w")
  show ?thesis
  proof (cases r)
    case (Inl err)
    with i show ?thesis by (simp add: leafStage_def withLeafSigner_def)
  next
    case (Inr leafSV)
    show ?thesis
    proof (cases "CryptoSigner leafSV")
      case None
      with i Inr show ?thesis
        by (simp add: leafStage_def withLeafSigner_def split: sum.split)
    next
      case (Some s)
      with i Inr show ?thesis
        by (cases s) (simp_all add: leafStage_def withLeafSigner_def split: sum.split)
    qed
  qed
qed

text \<open>
  What a stage that succeeds has done, step by step: each value is the result of the call
  before it, and the world is handed from one step to the next.
\<close>

lemma signAndWrite_Inr_full:
  assumes "signAndWrite ext stage tmpl algSigner parent pub signKey certPath w = (Inr cert, w')"
  shows "\<exists>alg. ToSignatureAlgorithm ext algSigner = Inr alg
           \<and> x509util_CreateCertificate ext (tmpl\<lparr>SignatureAlgorithm := alg\<rparr>)
                 (parent (tmpl\<lparr>SignatureAlgorithm := alg\<rparr>)) pub signKey = Inr cert
           \<and> WriteCertificateToFile ext cert certPath
                 (afterSigning w algSigner (tmpl\<lparr>SignatureAlgorithm := alg\<rparr>)
                    (parent (tmpl\<lparr>SignatureAlgorithm := alg\<rparr>)) pub signKey) = (None, w')"
  using assms
  by (auto simp: signAndWrite_def call_ToSignatureAlgorithm_def call_CreateCertificate_def
        afterSigning_def Let_def split: sum.splits prod.splits option.splits)

lemma rootStage_Inr_full:
  assumes "rootStage ext sv config rootTemplatePath rootCertPath rootLifetime w
             = (Inr (rootCert, rootSigner), w1)"
  shows "\<exists>rootPubKey rootTemplate rootParsed.
           PublicKey sv = Inr rootPubKey
           \<and> CryptoSigner sv = Some (Inr rootSigner)
           \<and> stageTemplate ext ''root'' rootTemplatePath w = Inr rootTemplate
           \<and> ParseTemplate ext rootTemplate None (time_Now ext w + rootLifetime) rootPubKey
                 (CommonName config) = Inr rootParsed
           \<and> signAndWrite ext ''root'' rootParsed rootSigner Some rootPubKey rootSigner
                 rootCertPath w = (Inr rootCert, w1)"
  using assms
  by (auto simp: rootStage_def Let_def split: sum.splits option.splits prod.splits)

lemma intermediateStage_Inr_full:
  assumes "intermediateStage ext initKMS config rootCert rootSigner intermediateKeyID
             intermediateTemplatePath intermediateCertPath intermediateLifetime w
             = (Inr (signingCert, signingKey), w')"
  shows "\<exists>intermediateSV w1 intermediatePubKey intermediateTemplate intermediateParsed.
           initKMS (config\<lparr>RootKeyID := intermediateKeyID\<rparr>) w = (Inr intermediateSV, w1)
           \<and> PublicKey intermediateSV = Inr intermediatePubKey
           \<and> CryptoSigner intermediateSV = Some (Inr signingKey)
           \<and> stageTemplate ext ''intermediate'' intermediateTemplatePath w1
                 = Inr intermediateTemplate
           \<and> ParseTemplate ext intermediateTemplate rootCert
                 (time_Now ext w1 + intermediateLifetime) intermediatePubKey (CommonName config)
                 = Inr intermediateParsed
           \<and> signAndWrite ext ''intermediate'' intermediateParsed signingKey (\<lambda>_. rootCert)
                 intermediatePubKey rootSigner intermediateCertPath w1 = (Inr signingCert, w')"
  using assms
  by (auto simp: intermediateStage_def Let_def split: sum.splits option.splits prod.splits)

lemma leafStage_None_full:
  assumes "leafStage ext initKMS config signingCert signingKey leafTemplatePath leafCertPath
             leafLifetime w = (None, w')"
  shows "\<exists>leafSV w1 leafPubKey leafTemplate leafParsed leafCert.
           initKMS (config\<lparr>RootKeyID := LeafKeyID config\<rparr>) w = (Inr leafSV, w1)
           \<and> PublicKey leafSV = Inr leafPubKey
           \<and> stageTemplate ext ''leaf'' leafTemplatePath w1 = Inr leafTemplate
           \<and> ParseTemplate ext leafTemplate signingCert (time_Now ext w1 + leafLifetime)
                 leafPubKey (CommonName config) = Inr leafParsed
           \<and> signAndWrite ext ''leaf'' leafParsed signingKey (\<lambda>_. signingCert)
                 leafPubKey signingKey leafCertPath w1 = (Inr leafCert, w')"
  using assms
  by (auto simp: leafStage_def Let_def split: sum.splits option.splits prod.splits)

section \<open>The claims\<close>

text \<open>
  C1, as amended. When \<open>intermediateKeyID\<close> is not empty and the build succeeds, the
  active pair of the leaf stage is the intermediate certificate and the intermediate
  signer. The run is this one, each value being the result of the call before it: the
  root certificate is created from the root template with the root signer and written;
  \<open>InitKMS\<close>, given the configuration of \<open>intermediateKeyID\<close> in the world that
  the root stage left, returns the intermediate signer handle, with its public key and
  its signer; the intermediate certificate is the one that
  \<open>x509util.CreateCertificate\<close> returns for the intermediate template (parsed for
  that public key under the root certificate, with the algorithm of the intermediate
  signer), the root certificate and the root signer, and it is written; the leaf template
  is parsed under that intermediate certificate and gets the signature algorithm of the
  intermediate signer; the last call to \<open>x509util.CreateCertificate\<close> has that
  intermediate certificate as parent and the intermediate signer as key; and the result
  of the build is the writing of the certificate it returns.
\<close>

theorem leaf_signed_with_intermediate_signer:
  fixes ext initKMS sv config rootTemplatePath leafTemplatePath rootCertPath leafCertPath
    intermediateKeyID intermediateTemplatePath intermediateCertPath
    rootLifetime intermediateLifetime leafLifetime w
  defines "run \<equiv> CreateCertificates ext initKMS sv config rootTemplatePath leafTemplatePath
             rootCertPath leafCertPath intermediateKeyID intermediateTemplatePath
             intermediateCertPath rootLifetime intermediateLifetime leafLifetime w"
  assumes ikid: "intermediateKeyID \<noteq> []" and ok: "fst run = None"
  shows "\<exists>rootPubKey rootSigner rootTemplate rootParsed rootAlg rootCert w1
           intermediateSV w2 intermediatePubKey intermediateSigner intermediateTemplate
           intermediateParsed intermediateAlg intermediateCert w3
           leafSV w4 leafPubKey leafTemplate leafParsed leafCert.
           PublicKey sv = Inr rootPubKey
           \<and> CryptoSigner sv = Some (Inr rootSigner)
           \<and> stageTemplate ext ''root'' rootTemplatePath w = Inr rootTemplate
           \<and> ParseTemplate ext rootTemplate None (time_Now ext w + rootLifetime) rootPubKey
                 (CommonName config) = Inr rootParsed
           \<and> ToSignatureAlgorithm ext rootSigner = Inr rootAlg
           \<and> x509util_CreateCertificate ext (rootParsed\<lparr>SignatureAlgorithm := rootAlg\<rparr>)
                 (Some (rootParsed\<lparr>SignatureAlgorithm := rootAlg\<rparr>)) rootPubKey rootSigner
                 = Inr rootCert
           \<and> WriteCertificateToFile ext rootCert rootCertPath
                 (afterSigning w rootSigner (rootParsed\<lparr>SignatureAlgorithm := rootAlg\<rparr>)
                    (Some (rootParsed\<lparr>SignatureAlgorithm := rootAlg\<rparr>)) rootPubKey rootSigner)
                 = (None, w1)
           \<and> initKMS (config\<lparr>RootKeyID := intermediateKeyID\<rparr>) w1 = (Inr intermediateSV, w2)
           \<and> PublicKey intermediateSV = Inr intermediatePubKey
           \<and> CryptoSigner intermediateSV = Some (Inr intermediateSigner)
           \<and> stageTemplate ext ''intermediate'' intermediateTemplatePath w2
                 = Inr intermediateTemplate
           \<and> ParseTemplate ext intermediateTemplate rootCert
                 (time_Now ext w2 + intermediateLifetime) intermediatePubKey (CommonName config)
                 = Inr intermediateParsed
           \<and> ToSignatureAlgorithm ext intermediateSigner = Inr intermediateAlg
           \<and> x509util_CreateCertificate ext
                 (intermediateParsed\<lparr>SignatureAlgorithm := intermediateAlg\<rparr>) rootCert
                 intermediatePubKey rootSigner = Inr intermediateCert
           \<and> WriteCertificateToFile ext intermediateCert intermediateCertPath
                 (afterSigning w2 intermediateSigner
                    (intermediateParsed\<lparr>SignatureAlgorithm := intermediateAlg\<rparr>) rootCert
                    intermediatePubKey rootSigner)
                 = (None, w3)
           \<and> initKMS (config\<lparr>RootKeyID := LeafKeyID config\<rparr>) w3 = (Inr leafSV, w4)
           \<and> PublicKey leafSV = Inr leafPubKey
           \<and> stageTemplate ext ''leaf'' leafTemplatePath w4 = Inr leafTemplate
           \<and> ParseTemplate ext leafTemplate intermediateCert (time_Now ext w4 + leafLifetime)
                 leafPubKey (CommonName config) = Inr leafParsed
           \<and> x509util_CreateCertificate ext
                 (leafParsed\<lparr>SignatureAlgorithm := intermediateAlg\<rparr>) intermediateCert
                 leafPubKey intermediateSigner = Inr (Some leafCert)
           \<and> run = WriteCertificateToFile ext (Some leafCert) leafCertPath
                 (afterSigning w4 intermediateSigner
                    (leafParsed\<lparr>SignatureAlgorithm := intermediateAlg\<rparr>) intermediateCert
                    leafPubKey intermediateSigner)
           \<and> sign_calls (snd run) = sign_calls w4 @
                 [Call_ToSignatureAlgorithm intermediateSigner,
                  Call_CreateCertificate (leafParsed\<lparr>SignatureAlgorithm := intermediateAlg\<rparr>)
                    intermediateCert leafPubKey intermediateSigner]
           \<and> files (snd run) leafCertPath
                 = Some (pem_EncodeToMemory ext ''CERTIFICATE'' (Raw leafCert))"
proof -
  obtain w' where run: "run = (None, w')"
    using ok by (cases run) simp
  from CreateCertificates_None [OF run [unfolded run_def]]
  obtain signingCert signingKey w3 where
    st: "signingStages ext initKMS sv config rootTemplatePath rootCertPath
           intermediateKeyID intermediateTemplatePath intermediateCertPath
           rootLifetime intermediateLifetime w = (Inr (signingCert, signingKey), w3)"
    and lf: "leafStage ext initKMS config signingCert signingKey leafTemplatePath leafCertPath
               leafLifetime w3 = (None, w')"
    by blast
  from signingStages_Inr [OF st] ikid
  obtain rootCert rootSigner w1 where
    rt: "rootStage ext sv config rootTemplatePath rootCertPath rootLifetime w
           = (Inr (rootCert, rootSigner), w1)"
    and im: "intermediateStage ext initKMS config rootCert rootSigner intermediateKeyID
               intermediateTemplatePath intermediateCertPath intermediateLifetime w1
               = (Inr (signingCert, signingKey), w3)"
    by auto
  from rootStage_Inr_full [OF rt]
  obtain rootPubKey rootTemplate rootParsed where
    r1: "PublicKey sv = Inr rootPubKey"
    and r2: "CryptoSigner sv = Some (Inr rootSigner)"
    and r3: "stageTemplate ext ''root'' rootTemplatePath w = Inr rootTemplate"
    and r4: "ParseTemplate ext rootTemplate None (time_Now ext w + rootLifetime) rootPubKey
               (CommonName config) = Inr rootParsed"
    and rsw: "signAndWrite ext ''root'' rootParsed rootSigner Some rootPubKey rootSigner
                rootCertPath w = (Inr rootCert, w1)"
    by blast
  from signAndWrite_Inr_full [OF rsw]
  obtain rootAlg where
    r5: "ToSignatureAlgorithm ext rootSigner = Inr rootAlg"
    and r6: "x509util_CreateCertificate ext (rootParsed\<lparr>SignatureAlgorithm := rootAlg\<rparr>)
               (Some (rootParsed\<lparr>SignatureAlgorithm := rootAlg\<rparr>)) rootPubKey rootSigner
               = Inr rootCert"
    and r7: "WriteCertificateToFile ext rootCert rootCertPath
               (afterSigning w rootSigner (rootParsed\<lparr>SignatureAlgorithm := rootAlg\<rparr>)
                  (Some (rootParsed\<lparr>SignatureAlgorithm := rootAlg\<rparr>)) rootPubKey rootSigner)
               = (None, w1)"
    by blast
  from intermediateStage_Inr_full [OF im]
  obtain intermediateSV w2 intermediatePubKey intermediateTemplate intermediateParsed where
    i1: "initKMS (config\<lparr>RootKeyID := intermediateKeyID\<rparr>) w1 = (Inr intermediateSV, w2)"
    and i2: "PublicKey intermediateSV = Inr intermediatePubKey"
    and i3: "CryptoSigner intermediateSV = Some (Inr signingKey)"
    and i4: "stageTemplate ext ''intermediate'' intermediateTemplatePath w2
               = Inr intermediateTemplate"
    and i5: "ParseTemplate ext intermediateTemplate rootCert
               (time_Now ext w2 + intermediateLifetime) intermediatePubKey (CommonName config)
               = Inr intermediateParsed"
    and isw: "signAndWrite ext ''intermediate'' intermediateParsed signingKey (\<lambda>_. rootCert)
                intermediatePubKey rootSigner intermediateCertPath w2 = (Inr signingCert, w3)"
    by blast
  from signAndWrite_Inr_full [OF isw]
  obtain intermediateAlg where
    i6: "ToSignatureAlgorithm ext signingKey = Inr intermediateAlg"
    and i7: "x509util_CreateCertificate ext
               (intermediateParsed\<lparr>SignatureAlgorithm := intermediateAlg\<rparr>) rootCert
               intermediatePubKey rootSigner = Inr signingCert"
    and i8: "WriteCertificateToFile ext signingCert intermediateCertPath
               (afterSigning w2 signingKey
                  (intermediateParsed\<lparr>SignatureAlgorithm := intermediateAlg\<rparr>) rootCert
                  intermediatePubKey rootSigner)
               = (None, w3)"
    by blast
  from leafStage_None_full [OF lf]
  obtain leafSV w4 leafPubKey leafTemplate leafParsed leafCert0 where
    l1: "initKMS (config\<lparr>RootKeyID := LeafKeyID config\<rparr>) w3 = (Inr leafSV, w4)"
    and l2: "PublicKey leafSV = Inr leafPubKey"
    and l3: "stageTemplate ext ''leaf'' leafTemplatePath w4 = Inr leafTemplate"
    and l4: "ParseTemplate ext leafTemplate signingCert (time_Now ext w4 + leafLifetime)
               leafPubKey (CommonName config) = Inr leafParsed"
    and lsw: "signAndWrite ext ''leaf'' leafParsed signingKey (\<lambda>_. signingCert)
                leafPubKey signingKey leafCertPath w4 = (Inr leafCert0, w')"
    by blast
  from signAndWrite_Inr_full [OF lsw] i6
  have l6: "x509util_CreateCertificate ext
               (leafParsed\<lparr>SignatureAlgorithm := intermediateAlg\<rparr>) signingCert
               leafPubKey signingKey = Inr leafCert0"
    and l7: "WriteCertificateToFile ext leafCert0 leafCertPath
               (afterSigning w4 signingKey
                  (leafParsed\<lparr>SignatureAlgorithm := intermediateAlg\<rparr>) signingCert
                  leafPubKey signingKey)
               = (None, w')"
    by auto
  from WriteCertificateToFile_None [OF l7]
  obtain leafCert where
    lc: "leafCert0 = Some leafCert"
    and l9: "files w' leafCertPath = Some (pem_EncodeToMemory ext ''CERTIFICATE'' (Raw leafCert))"
    by blast
  have l8: "sign_calls w' = sign_calls w4 @
              [Call_ToSignatureAlgorithm signingKey,
               Call_CreateCertificate (leafParsed\<lparr>SignatureAlgorithm := intermediateAlg\<rparr>)
                 signingCert leafPubKey signingKey]"
    using WriteCertificateToFile_frameD(1) [OF l7] by (simp add: afterSigning_def)
  have l7': "run = WriteCertificateToFile ext (Some leafCert) leafCertPath
               (afterSigning w4 signingKey
                  (leafParsed\<lparr>SignatureAlgorithm := intermediateAlg\<rparr>) signingCert
                  leafPubKey signingKey)"
    using l7 lc run by simp
  have s: "snd run = w'" using run by simp
  show ?thesis
    unfolding s
    by (intro exI conjI)
       (rule r1 r2 r3 r4 r5 r6 r7 i1 i2 i3 i4 i5 i6 i7 i8 l1 l2 l3 l4 l6 [unfolded lc] l7' l8 l9)+
qed

text \<open>
  An instance: the chain of three certificates with the stand-in collaborators. The
  last two calls to the signing collaborators are for the intermediate signer, and the
  parent of the leaf is the certificate in the intermediate file.
\<close>

theorem leaf_signed_with_intermediate_signer_witness:
  "''alias/inter'' \<noteq> [] \<and> fst (demo_create (InitKMS demo_ext) ''alias/inter'') = None
   \<and> (\<exists>leafTmpl intermediateCert leafPubKey intermediateSigner calls.
         sign_calls (snd (demo_create (InitKMS demo_ext) ''alias/inter'')) = calls @
           [Call_ToSignatureAlgorithm intermediateSigner,
            Call_CreateCertificate leafTmpl intermediateCert leafPubKey intermediateSigner])
   \<and> drop 4 (sign_calls (snd (demo_create (InitKMS demo_ext) ''alias/inter'')))
       = [Call_ToSignatureAlgorithm ''key:awskms:///alias/inter'',
          Call_CreateCertificate demo_leaf_tmpl (Some demo_inter_cert)
            ''pub:awskms:///alias/leaf'' ''key:awskms:///alias/inter'']
   \<and> files (snd (demo_create (InitKMS demo_ext) ''alias/inter'')) ''intermediate.pem''
       = Some (pem_EncodeToMemory demo_ext ''CERTIFICATE'' (Raw demo_inter_cert))"
proof -
  have h: "fst (CreateCertificates demo_ext (InitKMS demo_ext) (demo_sv ''root'') cfg_aws [] []
             ''root.pem'' ''leaf.pem'' ''alias/inter'' [] ''intermediate.pem'' 10 5 1 world0) = None"
    by code_simp
  have n: "''alias/inter'' \<noteq> []" by simp
  from leaf_signed_with_intermediate_signer [OF n h]
  have e: "\<exists>leafTmpl intermediateCert leafPubKey intermediateSigner calls.
         sign_calls (snd (demo_create (InitKMS demo_ext) ''alias/inter'')) = calls @
           [Call_ToSignatureAlgorithm intermediateSigner,
            Call_CreateCertificate leafTmpl intermediateCert leafPubKey intermediateSigner]"
    unfolding demo_create_def by blast
  have d: "drop 4 (sign_calls (snd (demo_create (InitKMS demo_ext) ''alias/inter'')))
       = [Call_ToSignatureAlgorithm ''key:awskms:///alias/inter'',
          Call_CreateCertificate demo_leaf_tmpl (Some demo_inter_cert)
            ''pub:awskms:///alias/leaf'' ''key:awskms:///alias/inter'']"
    by code_simp
  have f: "files (snd (demo_create (InitKMS demo_ext) ''alias/inter'')) ''intermediate.pem''
       = Some (pem_EncodeToMemory demo_ext ''CERTIFICATE'' (Raw demo_inter_cert))"
    by code_simp
  from h n e d f show ?thesis unfolding demo_create_def by simp
qed

text \<open>
  The signing key of the leaf stage is not the root signer. In the run above the signers
  given to the signing collaborators are, in order: the root signer twice (the root
  stage), the intermediate signer for the algorithm and the root signer for the
  signature (the intermediate stage), and the intermediate signer twice (the leaf
  stage).
\<close>

theorem leaf_not_signed_with_root_signer:
  "fst (demo_create (InitKMS demo_ext) ''alias/inter'') = None
   \<and> CryptoSigner (demo_sv ''root'') = Some (Inr ''key:root'')
   \<and> map call_signer (sign_calls (snd (demo_create (InitKMS demo_ext) ''alias/inter'')))
       = [''key:root'', ''key:root'', ''key:awskms:///alias/inter'', ''key:root'',
          ''key:awskms:///alias/inter'', ''key:awskms:///alias/inter'']
   \<and> ''key:awskms:///alias/inter'' \<noteq> ''key:root''"
  by code_simp

text \<open>
  C2, as amended. \<open>ValidateKMSConfig\<close> accepts a configuration exactly when its type
  is one of the four providers, the options that provider requires are there,
  \<open>RootKeyID\<close> and \<open>LeafKeyID\<close> are non-empty, and every non-empty key identifier
  matches the grammar of the provider, where for Azure the name and the vault must be
  non-empty after the white space around them is removed.
\<close>

theorem ValidateKMSConfig_accepts_iff_grammar:
  "(ValidateKMSConfig config = None) =
     (recognizedType (Type config) \<and> \<not> missingRequiredOption config
      \<and> RootKeyID config \<noteq> [] \<and> keyGrammarTrimmed config (RootKeyID config)
      \<and> (IntermediateKeyID config = [] \<or> keyGrammarTrimmed config (IntermediateKeyID config))
      \<and> LeafKeyID config \<noteq> [] \<and> keyGrammarTrimmed config (LeafKeyID config))"
  by (rule ValidateKMSConfig_None_iff)

text \<open>An instance: an AWS configuration with an ARN and an alias.\<close>

theorem ValidateKMSConfig_accepts_iff_grammar_witness:
  "ValidateKMSConfig cfg_aws = None \<and> recognizedType (Type cfg_aws)
   \<and> keyGrammarTrimmed cfg_aws (RootKeyID cfg_aws) \<and> keyGrammarTrimmed cfg_aws (LeafKeyID cfg_aws)"
proof -
  have "ValidateKMSConfig cfg_aws = None" by code_simp
  with ValidateKMSConfig_accepts_iff_grammar [of cfg_aws] show ?thesis by simp
qed

text \<open>
  With the grammar as the specification has it the equivalence fails: the Azure
  identifier \<open>azurekms:name= ;vault=v\<close> has the prefix, the separator, a non-empty
  name (one space) and a non-empty vault, and is rejected.
\<close>

theorem azure_blank_name_rejected:
  "RootKeyID cfg_azure_blank \<noteq> [] \<and> keyGrammar cfg_azure_blank (RootKeyID cfg_azure_blank)
   \<and> ValidateKMSConfig cfg_azure_blank = Some (KeyNameEmpty ''RootKeyID'')"
  by code_simp

text \<open>
  C3. When the type is not one of the four providers, or a provider's required option
  is missing, \<open>ValidateKMSConfig\<close> returns the error of the type or of the option,
  which is never the error that \<open>RootKeyID\<close> or \<open>LeafKeyID\<close> must be specified,
  whatever these fields hold. That error is returned only when the type is one of the
  providers, its options are there, and every key identifier is empty or matches the
  provider's grammar: the check comes after all the checks of the provider.
\<close>

theorem type_and_option_errors_take_priority:
  "(\<not> recognizedType (Type config) \<or> missingRequiredOption config \<longrightarrow>
      ValidateKMSConfig config = Some (typeOrOptionError config)
      \<and> typeOrOptionError config \<noteq> RootKeyIDRequired
      \<and> typeOrOptionError config \<noteq> LeafKeyIDRequired)
   \<and> (ValidateKMSConfig config = Some RootKeyIDRequired
        \<or> ValidateKMSConfig config = Some LeafKeyIDRequired \<longrightarrow>
      recognizedType (Type config) \<and> \<not> missingRequiredOption config
      \<and> (RootKeyID config = [] \<or> keyGrammarTrimmed config (RootKeyID config))
      \<and> (IntermediateKeyID config = [] \<or> keyGrammarTrimmed config (IntermediateKeyID config))
      \<and> (LeafKeyID config = [] \<or> keyGrammarTrimmed config (LeafKeyID config)))"
proof (intro conjI impI)
  assume "\<not> recognizedType (Type config) \<or> missingRequiredOption config"
  then show "ValidateKMSConfig config = Some (typeOrOptionError config)"
    by (simp add: ValidateKMSConfig_cases)
next
  show "typeOrOptionError config \<noteq> RootKeyIDRequired"
    and "typeOrOptionError config \<noteq> LeafKeyIDRequired"
    using typeOrOptionError_kind [of config] by simp_all
next
  assume a: "ValidateKMSConfig config = Some RootKeyIDRequired
             \<or> ValidateKMSConfig config = Some LeafKeyIDRequired"
  from keyid_errors_after_provider_checks [OF a]
  show "recognizedType (Type config)" and "\<not> missingRequiredOption config"
    and "RootKeyID config = [] \<or> keyGrammarTrimmed config (RootKeyID config)"
    and "IntermediateKeyID config = [] \<or> keyGrammarTrimmed config (IntermediateKeyID config)"
    and "LeafKeyID config = [] \<or> keyGrammarTrimmed config (LeafKeyID config)"
    by simp_all
qed

text \<open>
  Two instances: both key identifiers are empty and the region is missing; and the
  root key identifier is empty in a configuration that is valid otherwise.
\<close>

theorem type_and_option_errors_take_priority_witness:
  "missingRequiredOption cfg_noregion
   \<and> RootKeyID cfg_noregion = [] \<and> LeafKeyID cfg_noregion = []
   \<and> ValidateKMSConfig cfg_noregion = Some AwsRegionRequired
   \<and> ValidateKMSConfig (cfg_aws\<lparr>RootKeyID := []\<rparr>) = Some RootKeyIDRequired
   \<and> recognizedType (Type (cfg_aws\<lparr>RootKeyID := []\<rparr>))
   \<and> keyGrammarTrimmed (cfg_aws\<lparr>RootKeyID := []\<rparr>) (LeafKeyID (cfg_aws\<lparr>RootKeyID := []\<rparr>))"
proof -
  have m: "missingRequiredOption cfg_noregion"
    by (simp add: cfg_noregion_def missingRequiredOption_def option_value_def)
  have e: "typeOrOptionError cfg_noregion = AwsRegionRequired"
    by (simp add: cfg_noregion_def typeOrOptionError_def)
  have r: "ValidateKMSConfig (cfg_aws\<lparr>RootKeyID := []\<rparr>) = Some RootKeyIDRequired"
    by code_simp
  have l: "LeafKeyID (cfg_aws\<lparr>RootKeyID := []\<rparr>) \<noteq> []"
    by (simp add: cfg_aws_def)
  from type_and_option_errors_take_priority [of cfg_noregion] m e
  have 1: "ValidateKMSConfig cfg_noregion = Some AwsRegionRequired" by simp
  from type_and_option_errors_take_priority [of "cfg_aws\<lparr>RootKeyID := []\<rparr>"] r l
  have 2: "recognizedType (Type (cfg_aws\<lparr>RootKeyID := []\<rparr>))
           \<and> keyGrammarTrimmed (cfg_aws\<lparr>RootKeyID := []\<rparr>) (LeafKeyID (cfg_aws\<lparr>RootKeyID := []\<rparr>))"
    by blast
  from m 1 r 2 show ?thesis by (simp add: cfg_noregion_def)
qed

text \<open>
  C4. When \<open>ValidateKMSConfig\<close> fails, \<open>InitKMS\<close> returns its error wrapped as an
  invalid KMS configuration and leaves the world as it was: no reference is given to
  \<open>kms.Get\<close> and the environment is not changed.
\<close>

theorem InitKMS_invalid_config_no_provider_call:
  assumes "ValidateKMSConfig config = Some err"
  shows "InitKMS ext config w = (Inl (Wrapped ''invalid KMS configuration'' err), w)"
  using assms by (simp add: InitKMS_def)

text \<open>An instance: the AWS configuration without a region.\<close>

theorem InitKMS_invalid_config_no_provider_call_witness:
  "ValidateKMSConfig cfg_noregion = Some AwsRegionRequired
   \<and> InitKMS demo_ext cfg_noregion world0
       = (Inl (Wrapped ''invalid KMS configuration'' AwsRegionRequired), world0)"
proof -
  have h: "ValidateKMSConfig cfg_noregion = Some AwsRegionRequired" by code_simp
  from InitKMS_invalid_config_no_provider_call [OF h] h show ?thesis by simp
qed

text \<open>
  C5, as amended. In \<open>InitKMS\<close> with type \<open>azurekms\<close> and a configuration that
  passes validation, \<open>RootKeyID\<close> is of the short form
  \<open>azurekms:name=<n>;vault=<v>\<close>, with \<open>n\<close> the text before the first
  \<open>;vault=\<close>, and the reference given to the provider is
  \<open>azurekms://<v'>.vault.azure.net/<n'>\<close>, where \<open>n'\<close> and \<open>v'\<close> are
  \<open>n\<close> and \<open>v\<close> without the white space around them. The rewriting leaves any
  other identifier (no prefix, or no separator) unchanged; in \<open>InitKMS\<close> such a
  \<open>RootKeyID\<close> fails validation first and nothing is given to the provider.
\<close>

theorem InitKMS_azure_key_uri:
  "(Type config = ''azurekms'' \<and> ValidateKMSConfig config = None \<longrightarrow>
      (\<exists>n v. RootKeyID config = ''azurekms:name='' @ n @ '';vault='' @ v
             \<and> \<not> Contains n '';vault='')
      \<and> (\<forall>n v. RootKeyID config = ''azurekms:name='' @ n @ '';vault='' @ v
                 \<and> \<not> Contains n '';vault=''
             \<longrightarrow> kms_calls (snd (InitKMS ext config w))
                   = kms_calls w @ [''azurekms://'' @ TrimSpace v @ ''.vault.azure.net/''
                                    @ TrimSpace n]))
   \<and> (\<not> (HasPrefix k ''azurekms:name='' \<and> Contains k '';vault='') \<longrightarrow> azureKeyURI k = Some k)
   \<and> (Type config = ''azurekms''
        \<and> \<not> (HasPrefix (RootKeyID config) ''azurekms:name=''
               \<and> Contains (RootKeyID config) '';vault='')
      \<longrightarrow> ValidateKMSConfig config \<noteq> None \<and> kms_calls (snd (InitKMS ext config w)) = kms_calls w)"
proof (intro conjI impI allI)
  assume a: "Type config = ''azurekms'' \<and> ValidateKMSConfig config = None"
  then have g: "azureKeyGrammarTrimmed (RootKeyID config)" by (simp add: azure_valid_root)
  then obtain r where r: "RootKeyID config = ''azurekms:name='' @ r"
    unfolding azureKeyGrammarTrimmed_def HasPrefix_iff_append by blast
  from g have "Contains (''azurekms:name='' @ r) '';vault=''"
    unfolding azureKeyGrammarTrimmed_def r by simp
  then have nn: "0 \<le> Index r '';vault=''"
    unfolding Contains_def Index_vault_after_prefix by (simp split: if_splits)
  have "r = take (nat (Index r '';vault='')) r @ '';vault=''
              @ drop (nat (Index r '';vault='') + length '';vault='') r"
    by (rule first_separator(1) [OF nn])
  moreover have "\<not> Contains (take (nat (Index r '';vault='')) r) '';vault=''"
    by (rule first_separator(2) [OF nn]) simp
  ultimately show "\<exists>n v. RootKeyID config = ''azurekms:name='' @ n @ '';vault='' @ v
             \<and> \<not> Contains n '';vault=''"
    unfolding r by blast
next
  fix n v
  assume a: "Type config = ''azurekms'' \<and> ValidateKMSConfig config = None"
    and b: "RootKeyID config = ''azurekms:name='' @ n @ '';vault='' @ v
            \<and> \<not> Contains n '';vault=''"
  from b have "azureKeyURI (RootKeyID config)
                 = Some (''azurekms://'' @ TrimSpace v @ ''.vault.azure.net/'' @ TrimSpace n)"
    using azureKeyURI_short_form [of n v] by simp
  with a show "kms_calls (snd (InitKMS ext config w))
                 = kms_calls w @ [''azurekms://'' @ TrimSpace v @ ''.vault.azure.net/''
                                  @ TrimSpace n]"
    by (simp add: InitKMS_azure_calls)
next
  assume "\<not> (HasPrefix k ''azurekms:name='' \<and> Contains k '';vault='')"
  then show "azureKeyURI k = Some k" by (rule azureKeyURI_other)
next
  assume a: "Type config = ''azurekms''
        \<and> \<not> (HasPrefix (RootKeyID config) ''azurekms:name=''
               \<and> Contains (RootKeyID config) '';vault='')"
  show "ValidateKMSConfig config \<noteq> None"
  proof
    assume v: "ValidateKMSConfig config = None"
    with a have "azureKeyGrammarTrimmed (RootKeyID config)" by (simp add: azure_valid_root)
    with a show False by (simp add: azureKeyGrammarTrimmed_def)
  qed
  then obtain e where "ValidateKMSConfig config = Some e" by blast
  then show "kms_calls (snd (InitKMS ext config w)) = kms_calls w"
    by (simp add: InitKMS_def)
qed

theorem InitKMS_azure_key_uri_witness:
  "ValidateKMSConfig cfg_azure = None
   \<and> kms_calls (snd (InitKMS demo_ext cfg_azure world0)) = [''azurekms://v.vault.azure.net/k'']
   \<and> azureKeyURI ''azurekms://v.vault.azure.net/k'' = Some ''azurekms://v.vault.azure.net/k''
   \<and> kms_calls (snd (InitKMS demo_ext (cfg_azure\<lparr>RootKeyID := ''azurekms://v.vault.azure.net/k''\<rparr>)
        world0)) = []"
proof -
  have v: "ValidateKMSConfig cfg_azure = None" by code_simp
  have t: "Type cfg_azure = ''azurekms''" by (simp add: cfg_azure_def)
  have r: "RootKeyID cfg_azure = ''azurekms:name='' @ ''k'' @ '';vault='' @ ''v''"
    by (simp add: cfg_azure_def)
  have c: "\<not> Contains ''k'' '';vault=''" by code_simp
  have o: "\<not> (HasPrefix ''azurekms://v.vault.azure.net/k'' ''azurekms:name=''
              \<and> Contains ''azurekms://v.vault.azure.net/k'' '';vault='')"
    by code_simp
  have t2: "Type (cfg_azure\<lparr>RootKeyID := ''azurekms://v.vault.azure.net/k''\<rparr>) = ''azurekms''"
    by (simp add: cfg_azure_def)
  have k0: "kms_calls world0 = []" by (simp add: world0_def)
  have ts: "TrimSpace ''k'' = ''k''" "TrimSpace ''v'' = ''v''" by code_simp+
  note inst2 = InitKMS_azure_key_uri [of "cfg_azure\<lparr>RootKeyID := ''azurekms://v.vault.azure.net/k''\<rparr>"
      demo_ext world0 "''azurekms://v.vault.azure.net/k''"]
  note inst1 = InitKMS_azure_key_uri [of cfg_azure demo_ext world0 "''azurekms://v.vault.azure.net/k''"]
  from inst1 v t r c have
    "kms_calls (snd (InitKMS demo_ext cfg_azure world0))
       = kms_calls world0 @ [''azurekms://'' @ TrimSpace ''v'' @ ''.vault.azure.net/'' @ TrimSpace ''k'']"
    by blast
  moreover from inst2 o have "azureKeyURI ''azurekms://v.vault.azure.net/k'' = Some ''azurekms://v.vault.azure.net/k''"
    by blast
  moreover from inst2 t2 o have
    "kms_calls (snd (InitKMS demo_ext (cfg_azure\<lparr>RootKeyID := ''azurekms://v.vault.azure.net/k''\<rparr>)
        world0)) = kms_calls world0"
    by simp
  ultimately show ?thesis using v k0 ts by simp
qed

text \<open>
  The name and the vault are not used as they stand: with the name \<open>" k"\<close> the
  reference ends in \<open>/k\<close>, not in \<open>/ k\<close>.
\<close>

theorem azure_padded_name_trimmed:
  "Type cfg_azure_padded = ''azurekms''
   \<and> RootKeyID cfg_azure_padded = ''azurekms:name='' @ '' k'' @ '';vault='' @ ''v''
   \<and> kms_calls (snd (InitKMS demo_ext cfg_azure_padded world0)) = [''azurekms://v.vault.azure.net/k'']
   \<and> ''azurekms://v.vault.azure.net/k'' \<noteq> ''azurekms://'' @ ''v'' @ ''.vault.azure.net/'' @ '' k''"
  by code_simp

text \<open>
  C6. For a nil certificate, and for one whose raw bytes are empty,
  \<open>WriteCertificateToFile\<close> returns an error and leaves the world as it was: no file
  is created or written.
\<close>

theorem WriteCertificateToFile_rejects_nil_or_empty:
  assumes "cert = None \<or> (\<exists>c. cert = Some c \<and> Raw c = [])"
  shows "WriteCertificateToFile ext cert path w =
           (Some (if cert = None then CertificateNil else CertificateNoRaw), w)"
  using assms by (auto simp: WriteCertificateToFile_def)

text \<open>An instance: a certificate without raw bytes.\<close>

theorem WriteCertificateToFile_rejects_nil_or_empty_witness:
  "WriteCertificateToFile demo_ext (Some (root_cert\<lparr>Raw := []\<rparr>)) ''root.pem'' world0
     = (Some CertificateNoRaw, world0)"
proof -
  have h: "Some (root_cert\<lparr>Raw := []\<rparr>) = None
           \<or> (\<exists>c. Some (root_cert\<lparr>Raw := []\<rparr>) = Some c \<and> Raw c = [])"
    by simp
  from WriteCertificateToFile_rejects_nil_or_empty [OF h] show ?thesis by simp
qed

text \<open>
  C7. When \<open>WriteCertificateToFile\<close> has created the file, the status line it prints
  names the certificate as the classification has it: root for a CA that verifies
  against itself, intermediate for a CA that does not, leaf for any other.
\<close>

theorem WriteCertificateToFile_status_line_classification:
  assumes "Raw c \<noteq> []" and "os_Create ext w path = None"
  shows "stdout (snd (WriteCertificateToFile ext (Some c) path w))
           = stdout w @ [statusLine (specCertType ext c) path]"
  by (simp add: WriteCertificateToFile_created [OF assms] created_def split: option.split)

text \<open>An instance: a self-signed CA certificate is reported as root.\<close>

theorem WriteCertificateToFile_status_line_classification_witness:
  "Raw root_cert \<noteq> [] \<and> os_Create demo_ext world0 ''root.pem'' = None
   \<and> stdout (snd (WriteCertificateToFile demo_ext (Some root_cert) ''root.pem'' world0))
       = [''Saved root cert to root.pem'' @ [CHR 0x0A]]"
proof -
  have r: "Raw root_cert \<noteq> []" by (simp add: root_cert_def)
  have c: "os_Create demo_ext world0 ''root.pem'' = None" by (simp add: demo_ext_def)
  have t: "specCertType demo_ext root_cert = ''root''"
    by (simp add: specCertType_def demo_ext_def root_cert_def)
  from WriteCertificateToFile_status_line_classification [OF r c] r c show ?thesis
    by (simp add: t statusLine_def world0_def)
qed

text \<open>
  C8. \<open>CreateCertificates\<close> does not read \<open>config.IntermediateKeyID\<close>: it only
  passes it on, so that setting the field in \<open>config\<close> is the same as setting it in
  every configuration that \<open>InitKMS\<close> receives. The configurations that
  \<open>InitKMS\<close> receives are, in order and as far as the run gets, the one of the
  intermediate stage when \<open>intermediateKeyID\<close> is not empty, and the one of the leaf
  stage; each is \<open>config\<close> in every field but \<open>RootKeyID\<close>, which is
  \<open>intermediateKeyID\<close> and \<open>config.LeafKeyID\<close>; a run that succeeds gives
  all of them.
\<close>

theorem CreateCertificates_InitKMS_configs:
  "CreateCertificates ext initKMS sv (config\<lparr>IntermediateKeyID := x\<rparr>) rootTemplatePath
       leafTemplatePath rootCertPath leafCertPath intermediateKeyID intermediateTemplatePath
       intermediateCertPath rootLifetime intermediateLifetime leafLifetime w
     = CreateCertificates ext (\<lambda>c. initKMS (c\<lparr>IntermediateKeyID := x\<rparr>)) sv config rootTemplatePath
         leafTemplatePath rootCertPath leafCertPath intermediateKeyID intermediateTemplatePath
         intermediateCertPath rootLifetime intermediateLifetime leafLifetime w
   \<and> (\<exists>k. initkms_calls (snd (CreateCertificates ext (recording (InitKMS ext)) sv config
               rootTemplatePath leafTemplatePath rootCertPath leafCertPath intermediateKeyID
               intermediateTemplatePath intermediateCertPath rootLifetime intermediateLifetime
               leafLifetime w))
            = initkms_calls w @ take k (expectedInitKMSConfigs config intermediateKeyID))
   \<and> (fst (CreateCertificates ext (recording (InitKMS ext)) sv config
               rootTemplatePath leafTemplatePath rootCertPath leafCertPath intermediateKeyID
               intermediateTemplatePath intermediateCertPath rootLifetime intermediateLifetime
               leafLifetime w) = None
       \<longrightarrow> initkms_calls (snd (CreateCertificates ext (recording (InitKMS ext)) sv config
               rootTemplatePath leafTemplatePath rootCertPath leafCertPath intermediateKeyID
               intermediateTemplatePath intermediateCertPath rootLifetime intermediateLifetime
               leafLifetime w))
            = initkms_calls w @ expectedInitKMSConfigs config intermediateKeyID)"
proof (intro conjI impI)
  show "CreateCertificates ext initKMS sv (config\<lparr>IntermediateKeyID := x\<rparr>) rootTemplatePath
       leafTemplatePath rootCertPath leafCertPath intermediateKeyID intermediateTemplatePath
       intermediateCertPath rootLifetime intermediateLifetime leafLifetime w
     = CreateCertificates ext (\<lambda>c. initKMS (c\<lparr>IntermediateKeyID := x\<rparr>)) sv config rootTemplatePath
         leafTemplatePath rootCertPath leafCertPath intermediateKeyID intermediateTemplatePath
         intermediateCertPath rootLifetime intermediateLifetime leafLifetime w"
    by (rule CreateCertificates_IntermediateKeyID)
qed (rule CreateCertificates_recorded(1), erule CreateCertificates_recorded(2))

text \<open>An instance with an intermediate stage, and one without.\<close>

theorem CreateCertificates_InitKMS_configs_witness:
  "fst (demo_create (recording (InitKMS demo_ext)) ''alias/inter'') = None
   \<and> initkms_calls (snd (demo_create (recording (InitKMS demo_ext)) ''alias/inter''))
       = [stageConfig cfg_aws ''alias/inter'', stageConfig cfg_aws ''alias/leaf'']
   \<and> fst (demo_create (recording (InitKMS demo_ext)) []) = None
   \<and> initkms_calls (snd (demo_create (recording (InitKMS demo_ext)) []))
       = [stageConfig cfg_aws ''alias/leaf'']"
proof -
  have h1: "fst (CreateCertificates demo_ext (recording (InitKMS demo_ext)) (demo_sv ''root'') cfg_aws
              [] [] ''root.pem'' ''leaf.pem'' ''alias/inter'' [] ''intermediate.pem'' 10 5 1 world0)
            = None"
    by code_simp
  have h2: "fst (CreateCertificates demo_ext (recording (InitKMS demo_ext)) (demo_sv ''root'') cfg_aws
              [] [] ''root.pem'' ''leaf.pem'' [] [] ''intermediate.pem'' 10 5 1 world0)
            = None"
    by code_simp
  have e1: "initkms_calls world0 @ expectedInitKMSConfigs cfg_aws ''alias/inter''
              = [stageConfig cfg_aws ''alias/inter'', stageConfig cfg_aws ''alias/leaf'']"
    by (simp add: expectedInitKMSConfigs_def world0_def cfg_aws_def)
  have e2: "initkms_calls world0 @ expectedInitKMSConfigs cfg_aws []
              = [stageConfig cfg_aws ''alias/leaf'']"
    by (simp add: expectedInitKMSConfigs_def world0_def cfg_aws_def)
  from CreateCertificates_InitKMS_configs [where ext = demo_ext and sv = "demo_sv ''root''" and config = cfg_aws
      and rootTemplatePath = "[]" and leafTemplatePath = "[]" and rootCertPath = "''root.pem''"
      and leafCertPath = "''leaf.pem''" and intermediateKeyID = "''alias/inter''"
      and intermediateTemplatePath = "[]" and intermediateCertPath = "''intermediate.pem''"
      and rootLifetime = 10 and intermediateLifetime = 5 and leafLifetime = 1 and w = world0] h1
  have r1: "initkms_calls (snd (demo_create (recording (InitKMS demo_ext)) ''alias/inter''))
              = initkms_calls world0 @ expectedInitKMSConfigs cfg_aws ''alias/inter''"
    unfolding demo_create_def by blast
  from CreateCertificates_InitKMS_configs [where ext = demo_ext and sv = "demo_sv ''root''" and config = cfg_aws
      and rootTemplatePath = "[]" and leafTemplatePath = "[]" and rootCertPath = "''root.pem''"
      and leafCertPath = "''leaf.pem''" and intermediateKeyID = "[]"
      and intermediateTemplatePath = "[]" and intermediateCertPath = "''intermediate.pem''"
      and rootLifetime = 10 and intermediateLifetime = 5 and leafLifetime = 1 and w = world0] h2
  have r2: "initkms_calls (snd (demo_create (recording (InitKMS demo_ext)) []))
              = initkms_calls world0 @ expectedInitKMSConfigs cfg_aws []"
    unfolding demo_create_def by blast
  from h1 h2 r1 r2 show ?thesis unfolding e1 e2 demo_create_def by simp
qed

text \<open>
  C9. Once the stages before it have succeeded and \<open>InitKMS\<close> has returned the leaf
  signer with its public key, \<open>CreateCertificates\<close> fails when the leaf signer does
  not implement \<open>CryptoSignerVerifier\<close>, and when its \<open>CryptoSigner\<close> call
  fails; and the signing capability that this call returns is not used: the result is
  that of the leaf stage with any other capability in its place, the certificate being
  signed with the active signing key.
\<close>

theorem leaf_signer_capability_required_but_unused:
  fixes ext initKMS sv config rootTemplatePath leafTemplatePath rootCertPath leafCertPath
    intermediateKeyID intermediateTemplatePath intermediateCertPath
    rootLifetime intermediateLifetime leafLifetime w
  defines "stages \<equiv> signingStages ext initKMS sv config rootTemplatePath rootCertPath
             intermediateKeyID intermediateTemplatePath intermediateCertPath
             rootLifetime intermediateLifetime w"
    and "run \<equiv> CreateCertificates ext initKMS sv config rootTemplatePath leafTemplatePath
             rootCertPath leafCertPath intermediateKeyID intermediateTemplatePath
             intermediateCertPath rootLifetime intermediateLifetime leafLifetime w"
  defines "leafInit \<equiv> initKMS (config\<lparr>RootKeyID := LeafKeyID config\<rparr>) (snd stages)"
  assumes st: "fst stages = Inr (signingCert, signingKey)"
    and li: "fst leafInit = Inr leafSV"
    and pk: "PublicKey leafSV = Inr leafPubKey"
  shows "(CryptoSigner leafSV = None \<longrightarrow>
            run = (Some (NotCryptoSigner ''leaf signer''), snd leafInit))
         \<and> (\<forall>err. CryptoSigner leafSV = Some (Inl err) \<longrightarrow>
               run = (Some (Wrapped ''error getting leaf crypto signer'' err), snd leafInit))
         \<and> (\<forall>h. run = leafStage ext (withLeafSigner h initKMS) config signingCert signingKey
                        leafTemplatePath leafCertPath leafLifetime (snd stages))"
proof -
  obtain w2 where w2: "stages = (Inr (signingCert, signingKey), w2)"
    using st by (cases stages) simp
  have run: "run = leafStage ext initKMS config signingCert signingKey
                     leafTemplatePath leafCertPath leafLifetime w2"
    using w2 unfolding run_def stages_def CreateCertificates_def by simp
  obtain w3 where w3: "initKMS (config\<lparr>RootKeyID := LeafKeyID config\<rparr>) w2 = (Inr leafSV, w3)"
    using li w2 unfolding leafInit_def by (cases "initKMS (config\<lparr>RootKeyID := LeafKeyID config\<rparr>) w2") simp
  have s3: "snd leafInit = w3" using w3 w2 unfolding leafInit_def by simp
  have a: "CryptoSigner leafSV = None \<longrightarrow>
             run = (Some (NotCryptoSigner ''leaf signer''), snd leafInit)"
    unfolding run s3 using w3 pk by (simp add: leafStage_def)
  have b: "\<forall>err. CryptoSigner leafSV = Some (Inl err) \<longrightarrow>
             run = (Some (Wrapped ''error getting leaf crypto signer'' err), snd leafInit)"
    unfolding run s3 using w3 pk by (simp add: leafStage_def)
  have c: "\<forall>h. run = leafStage ext (withLeafSigner h initKMS) config signingCert signingKey
                        leafTemplatePath leafCertPath leafLifetime (snd stages)"
    unfolding run leafStage_withLeafSigner using w2 by simp
  from a b c show ?thesis by blast
qed

text \<open>
  Two instances, without an intermediate stage: a leaf signer without the capability,
  and one whose \<open>CryptoSigner\<close> call is denied.
\<close>

theorem leaf_signer_capability_required_but_unused_witness:
  "fst (demo_stages (demo_initKMS None) []) = Inr (Some demo_root_cert, ''key:root'')
   \<and> fst (demo_create (demo_initKMS None) []) = Some (NotCryptoSigner ''leaf signer'')
   \<and> fst (demo_create (demo_initKMS (Some (Inl (External ''kms: access denied'')))) [])
       = Some (Wrapped ''error getting leaf crypto signer'' (External ''kms: access denied''))"
proof -
  let ?deny = "Some (Inl (External ''kms: access denied'')) :: (error + Signer) option"
  have s1: "fst (signingStages demo_ext (demo_initKMS None) (demo_sv ''root'') cfg_aws [] ''root.pem''
              [] [] ''intermediate.pem'' 10 5 world0) = Inr (Some demo_root_cert, ''key:root'')"
    by code_simp
  have s2: "fst (signingStages demo_ext (demo_initKMS ?deny) (demo_sv ''root'') cfg_aws []
              ''root.pem'' [] [] ''intermediate.pem'' 10 5 world0)
              = Inr (Some demo_root_cert, ''key:root'')"
    by code_simp
  have l: "fst (demo_initKMS cs (cfg_aws\<lparr>RootKeyID := LeafKeyID cfg_aws\<rparr>) w') = Inr (demo_leaf_sv cs)"
    for cs w'
    by (simp add: demo_initKMS_def demo_leaf_sv_def cfg_aws_def)
  have p: "PublicKey (demo_leaf_sv cs) = Inr ''pub:alias/leaf''" for cs
    by (simp add: demo_leaf_sv_def)
  have c1: "CryptoSigner (demo_leaf_sv None) = None" by (simp add: demo_leaf_sv_def)
  have c2: "CryptoSigner (demo_leaf_sv ?deny) = Some (Inl (External ''kms: access denied''))"
    by (simp add: demo_leaf_sv_def)
  from leaf_signer_capability_required_but_unused [OF s1 l p, of "[]" "''leaf.pem''" 1] c1
  have r1: "fst (demo_create (demo_initKMS None) []) = Some (NotCryptoSigner ''leaf signer'')"
    unfolding demo_create_def by simp
  from leaf_signer_capability_required_but_unused [OF s2 l p, of "[]" "''leaf.pem''" 1] c2
  have r2: "fst (demo_create (demo_initKMS ?deny) [])
              = Some (Wrapped ''error getting leaf crypto signer'' (External ''kms: access denied''))"
    unfolding demo_create_def by simp
  from s1 r1 r2 show ?thesis unfolding demo_stages_def by simp
qed

text \<open>
  C10. For a certificate with raw bytes, once \<open>os.Create\<close> has succeeded, the file
  exists and the status line is printed before the PEM encoding is attempted: the
  write happens in the world \<open>created\<close>, where the file is there, empty, and the
  line is on standard output. Whether the write succeeds or fails, the line stays
  printed and the file stays: it holds the PEM text when the write succeeds, and, when
  the write fails after \<open>n\<close> bytes, the error is returned and the file holds the
  first \<open>n\<close> bytes of the PEM text in place of what it held, so that the error does
  not mean that nothing was written.
\<close>

theorem WriteCertificateToFile_encode_failure_leaves_file:
  fixes ext c path w
  defines "pemText \<equiv> pem_EncodeToMemory ext ''CERTIFICATE'' (Raw c)"
  assumes "Raw c \<noteq> []" and "os_Create ext w path = None"
  shows "WriteCertificateToFile ext (Some c) path w =
           (case write_fault ext (created ext c path w) path of
              None \<Rightarrow>
                (None, (created ext c path w)\<lparr>files := (files w)(path \<mapsto> pemText)\<rparr>)
            | Some (n, err) \<Rightarrow>
                (Some err, (created ext c path w)\<lparr>files := (files w)(path \<mapsto> take n pemText)\<rparr>))
         \<and> fst (WriteCertificateToFile ext (Some c) path w)
             = map_option snd (write_fault ext (created ext c path w) path)
         \<and> stdout (snd (WriteCertificateToFile ext (Some c) path w))
             = stdout w @ [statusLine (specCertType ext c) path]
         \<and> files (snd (WriteCertificateToFile ext (Some c) path w)) path
             = Some (case write_fault ext (created ext c path w) path of
                       None \<Rightarrow> pemText
                     | Some (n, err) \<Rightarrow> take n pemText)"
  unfolding pemText_def
  by (simp add: WriteCertificateToFile_created [OF assms(2,3)] created_def split: option.split)

text \<open>
  Two instances: the write fails at once (the error is returned, the file exists,
  empty, and the line is printed), and the write succeeds.
\<close>

theorem WriteCertificateToFile_encode_failure_leaves_file_witness:
  "Raw root_cert \<noteq> [] \<and> os_Create demo_ext world0 ''/dev/full'' = None
   \<and> write_fault demo_ext (created demo_ext root_cert ''/dev/full'' world0) ''/dev/full''
       = Some (0, External ''write: no space left on device'')
   \<and> fst (WriteCertificateToFile demo_ext (Some root_cert) ''/dev/full'' world0)
       = Some (External ''write: no space left on device'')
   \<and> files (snd (WriteCertificateToFile demo_ext (Some root_cert) ''/dev/full'' world0)) ''/dev/full''
       = Some []
   \<and> files world0 ''/dev/full'' = None
   \<and> stdout (snd (WriteCertificateToFile demo_ext (Some root_cert) ''/dev/full'' world0))
       = [''Saved root cert to /dev/full'' @ [CHR 0x0A]]
   \<and> os_Create demo_ext world0 ''root.pem'' = None
   \<and> write_fault demo_ext (created demo_ext root_cert ''root.pem'' world0) ''root.pem'' = None
   \<and> fst (WriteCertificateToFile demo_ext (Some root_cert) ''root.pem'' world0) = None
   \<and> files (snd (WriteCertificateToFile demo_ext (Some root_cert) ''root.pem'' world0)) ''root.pem''
       = Some ''-----BEGIN CERTIFICATE-----cert:pub:r:by:key:r-----END CERTIFICATE-----''
   \<and> stdout (snd (WriteCertificateToFile demo_ext (Some root_cert) ''root.pem'' world0))
       = [''Saved root cert to root.pem'' @ [CHR 0x0A]]"
proof -
  have r: "Raw root_cert \<noteq> []" by (simp add: root_cert_def)
  have c1: "os_Create demo_ext world0 ''/dev/full'' = None" by (simp add: demo_ext_def)
  have c2: "os_Create demo_ext world0 ''root.pem'' = None" by (simp add: demo_ext_def)
  have f1: "write_fault demo_ext (created demo_ext root_cert ''/dev/full'' world0) ''/dev/full''
             = Some (0, External ''write: no space left on device'')"
    by (simp add: demo_ext_def)
  have f2: "write_fault demo_ext (created demo_ext root_cert ''root.pem'' world0) ''root.pem'' = None"
    by (simp add: demo_ext_def)
  have t: "specCertType demo_ext root_cert = ''root''"
    by (simp add: specCertType_def demo_ext_def root_cert_def)
  have p: "pem_EncodeToMemory demo_ext ''CERTIFICATE'' (Raw root_cert)
             = ''-----BEGIN CERTIFICATE-----cert:pub:r:by:key:r-----END CERTIFICATE-----''"
    by (simp add: demo_ext_def root_cert_def)
  have w: "stdout world0 = []" "files world0 ''/dev/full'' = None" by (simp_all add: world0_def)
  from WriteCertificateToFile_encode_failure_leaves_file [OF r c1, THEN conjunct2] f1 t w
  have a: "fst (WriteCertificateToFile demo_ext (Some root_cert) ''/dev/full'' world0)
             = Some (External ''write: no space left on device'')
           \<and> files (snd (WriteCertificateToFile demo_ext (Some root_cert) ''/dev/full'' world0))
               ''/dev/full'' = Some []
           \<and> stdout (snd (WriteCertificateToFile demo_ext (Some root_cert) ''/dev/full'' world0))
               = [''Saved root cert to /dev/full'' @ [CHR 0x0A]]"
    by (simp add: statusLine_def)
  from WriteCertificateToFile_encode_failure_leaves_file [OF r c2, THEN conjunct2] f2 t w p
  have b: "fst (WriteCertificateToFile demo_ext (Some root_cert) ''root.pem'' world0) = None
           \<and> files (snd (WriteCertificateToFile demo_ext (Some root_cert) ''root.pem'' world0))
               ''root.pem''
               = Some ''-----BEGIN CERTIFICATE-----cert:pub:r:by:key:r-----END CERTIFICATE-----''
           \<and> stdout (snd (WriteCertificateToFile demo_ext (Some root_cert) ''root.pem'' world0))
               = [''Saved root cert to root.pem'' @ [CHR 0x0A]]"
    by (simp add: statusLine_def)
  from r c1 c2 f1 f2 w a b show ?thesis by simp
qed

end
